(* ===== verification/Py_Prelude.thy ===== *)
theory Py_Prelude
  imports Main
begin

text \<open>
  Shared vocabulary of the development: the Python values the board stores
  (\<open>int | None\<close> cells, lists of lists), the exceptions the code can raise
  (\<open>AssertionError\<close> with the message the \<open>assert\<close> statements format,
  \<open>IndexError\<close> from list subscripts, \<open>TypeError\<close> from comparing \<open>None\<close>
  with an \<open>int\<close>), exceptions as the left side of a sum type, and the few
  Python primitives the class uses: subscript read \<open>xs[i]\<close>, subscript
  store \<open>xs[i] = v\<close>, the chained comparison \<open>a <= b <= c\<close> with its
  short circuit, \<open>range\<close> and list comprehension.  Their evaluation rules are
  collected in \<open>py_simps\<close>.
\<close>

named_theorems py_simps "evaluation rules of the modelled Python primitives"

section \<open>Values and exceptions\<close>

type_synonym cell = "int option"
type_synonym grid = "cell list list"

text \<open>The payload of an \<open>AssertionError\<close>: which of the f-string messages
  of \<open>src/my_sudoku.py\<close> it carries, with the value it formats.\<close>

datatype assert_msg =
    ColumnInvalid int
  | RowInvalid int
  | ValueInvalid cell

datatype py_error =
    AssertionError assert_msg
  | IndexError
  | TypeError

type_synonym 'a py = "py_error + 'a"

definition py_bind :: "'a py \<Rightarrow> ('a \<Rightarrow> 'b py) \<Rightarrow> 'b py" where
  "py_bind m f = (case m of Inl e \<Rightarrow> Inl e | Inr x \<Rightarrow> f x)"

definition py_assert :: "bool \<Rightarrow> assert_msg \<Rightarrow> unit py" where
  "py_assert b msg = (if b then Inr () else Inl (AssertionError msg))"

section \<open>List primitives\<close>

text \<open>Python's reading of a subscript \<open>i\<close> of a sequence of length
  \<open>n\<close>: a negative \<open>i\<close> counts back from the end.\<close>

definition py_norm_index :: "int \<Rightarrow> int \<Rightarrow> int" where
  "py_norm_index n i = (if i < 0 then i + n else i)"

text \<open>\<open>xs[i]\<close>, raising \<open>IndexError\<close> when the normalised index is
  outside the list.\<close>

definition py_index :: "'a list \<Rightarrow> int \<Rightarrow> 'a py" where
  "py_index xs i =
     (let k = py_norm_index (int (length xs)) i
      in if k < 0 \<or> int (length xs) \<le> k then Inl IndexError else Inr (xs ! nat k))"

text \<open>\<open>xs[i] = v\<close>, by the same index rule; the model returns the list
  after the store.\<close>

definition py_store :: "'a list \<Rightarrow> int \<Rightarrow> 'a \<Rightarrow> 'a list py" where
  "py_store xs i v =
     (let k = py_norm_index (int (length xs)) i
      in if k < 0 \<or> int (length xs) \<le> k then Inl IndexError else Inr (xs[nat k := v]))"

text \<open>\<open>lo <= a <= hi_expr\<close>: \<open>hi_expr\<close> is evaluated only when
  \<open>lo <= a\<close> holds, so an exception it raises is seen only then.\<close>

definition py_le_chain :: "int \<Rightarrow> int \<Rightarrow> int py \<Rightarrow> bool py" where
  "py_le_chain lo a hi = (if lo \<le> a then py_bind hi (\<lambda>h. Inr (a \<le> h)) else Inr False)"

definition py_len :: "'a list \<Rightarrow> int" where
  "py_len xs = int (length xs)"

definition py_range :: "int \<Rightarrow> int list" where
  "py_range n = [0..n - 1]"

text \<open>\<open>[f(x) for x in xs]\<close>: evaluated left to right, the first exception
  propagates.\<close>

fun py_map :: "('a \<Rightarrow> 'b py) \<Rightarrow> 'a list \<Rightarrow> 'b list py" where
  "py_map f [] = Inr []"
| "py_map f (x # xs) = py_bind (f x) (\<lambda>y. py_bind (py_map f xs) (\<lambda>ys. Inr (y # ys)))"

section \<open>Evaluation rules\<close>

lemma py_bind_Inl [simp, py_simps]: "py_bind (Inl e) f = Inl e"
  by (simp add: py_bind_def)

lemma py_bind_Inr [simp, py_simps]: "py_bind (Inr x) f = f x"
  by (simp add: py_bind_def)

lemma py_bind_eq_Inr:
  "py_bind m f = Inr y \<longleftrightarrow> (\<exists>x. m = Inr x \<and> f x = Inr y)"
  by (cases m) simp_all

lemma py_bind_eq_Inl:
  "py_bind m f = Inl e \<longleftrightarrow> m = Inl e \<or> (\<exists>x. m = Inr x \<and> f x = Inl e)"
  by (cases m) simp_all

lemma py_assert_simps [simp, py_simps]:
  "py_assert True msg = Inr ()"
  "py_assert False msg = Inl (AssertionError msg)"
  by (simp_all add: py_assert_def)

lemma py_le_chain_simps [simp, py_simps]:
  "\<not> lo \<le> a \<Longrightarrow> py_le_chain lo a hi = Inr False"
  "lo \<le> a \<Longrightarrow> py_le_chain lo a (Inr h) = Inr (a \<le> h)"
  "lo \<le> a \<Longrightarrow> py_le_chain lo a (Inl e) = Inl e"
  by (simp_all add: py_le_chain_def)

lemma py_len_simp [simp, py_simps]: "py_len xs = int (length xs)"
  by (simp add: py_len_def)

lemma py_index_nat [simp, py_simps]:
  "i < length xs \<Longrightarrow> py_index xs (int i) = Inr (xs ! i)"
  by (simp add: py_index_def py_norm_index_def)

lemma py_index_Cons_0 [simp, py_simps]: "py_index (x # xs) 0 = Inr x"
  by (simp add: py_index_def py_norm_index_def)

lemma py_index_Nil [simp, py_simps]: "py_index [] i = Inl IndexError"
  by (simp add: py_index_def py_norm_index_def)

lemma py_index_Cons_1 [simp, py_simps]: "py_index (x # y # xs) 1 = Inr y"
  by (simp add: py_index_def py_norm_index_def)

lemma py_index_single_1 [simp, py_simps]: "py_index [x] 1 = Inl IndexError"
  by (simp add: py_index_def py_norm_index_def)

lemma py_index_in_range [py_simps]:
  "0 \<le> i \<Longrightarrow> i < int (length xs) \<Longrightarrow> py_index xs i = Inr (xs ! nat i)"
  by (simp add: py_index_def py_norm_index_def)

lemma py_index_eq_Inr:
  "py_index xs i = Inr x \<longleftrightarrow>
     (-int (length xs) \<le> i \<and> i < int (length xs) \<and>
      x = xs ! nat (py_norm_index (int (length xs)) i))"
  by (auto simp add: py_index_def py_norm_index_def Let_def)

lemma py_index_in_set: "py_index xs i = Inr x \<Longrightarrow> x \<in> set xs"
  by (auto simp add: py_index_def py_norm_index_def Let_def split: if_splits)

lemma py_index_eq_Inl:
  "py_index xs i = Inl e \<longleftrightarrow>
     e = IndexError \<and> (i < -int (length xs) \<or> int (length xs) \<le> i)"
  by (auto simp add: py_index_def py_norm_index_def Let_def)

lemma py_store_in_range [py_simps]:
  "0 \<le> i \<Longrightarrow> i < int (length xs) \<Longrightarrow> py_store xs i v = Inr (xs[nat i := v])"
  by (simp add: py_store_def py_norm_index_def)

lemma py_store_eq_Inl:
  "py_store xs i v = Inl e \<longleftrightarrow>
     e = IndexError \<and> (i < -int (length xs) \<or> int (length xs) \<le> i)"
  by (auto simp add: py_store_def py_norm_index_def Let_def)

lemma py_store_length:
  "py_store xs i v = Inr ys \<Longrightarrow> length ys = length xs"
  by (auto simp add: py_store_def py_norm_index_def Let_def split: if_splits)

lemma py_map_Inr:
  "(\<And>x. x \<in> set xs \<Longrightarrow> f x = Inr (g x)) \<Longrightarrow> py_map f xs = Inr (map g xs)"
  by (induction xs) simp_all

lemma py_map_Inl_source:
  "py_map f xs = Inl e \<Longrightarrow> \<exists>x\<in>set xs. f x = Inl e"
  by (induction xs) (auto simp: py_bind_def split: sum.splits)

lemma py_map_raises:
  "x \<in> set xs \<Longrightarrow> f x = Inl e \<Longrightarrow> \<exists>e'. py_map f xs = Inl e'"
  by (induction xs) (auto simp: py_bind_def split: sum.splits)

text \<open>A comprehension whose elements can raise only \<open>e\<close>, one of which does,
  raises \<open>e\<close>.\<close>

lemma py_map_Inl_only:
  assumes "x \<in> set xs" and "f x = Inl e" and "\<And>y e'. y \<in> set xs \<Longrightarrow> f y = Inl e' \<Longrightarrow> e' = e"
  shows "py_map f xs = Inl e"
proof -
  obtain e' where "py_map f xs = Inl e'" using py_map_raises [where f = f] assms(1,2) by blast
  moreover from py_map_Inl_source [OF this] assms(3) have "e' = e" by blast
  ultimately show ?thesis by simp
qed

lemma py_range_nat [simp, py_simps]: "py_range (int n) = map int [0..<n]"
proof (induction n)
  case 0
  then show ?case by (simp add: py_range_def)
next
  case (Suc n)
  have "[0..int n] = [0..int n - 1] @ [int n]"
    by (simp add: upto_rec2)
  with Suc show ?case by (simp add: py_range_def)
qed

lemma py_range_numeral [simp, py_simps]: "py_range (numeral n) = map int [0..<numeral n]"
  using py_range_nat [of "numeral n"] by simp

end
