(* ===== verification/Board.thy ===== *)
theory Board
  imports Py_Prelude
begin

text \<open>
  The \<open>Sudoku\<close> class of \<open>src/my_sudoku.py\<close> at the level of values: the
  object's one attribute \<open>numbers\<close> as a record field, and its constructor and
  accessors (\<open>__init__\<close>, \<open>get_cell\<close>, \<open>get_sudoku\<close>, \<open>set_cell\<close>,
  \<open>set_sudoku\<close>) as functions that return the new object or the exception
  the code raises.  Positions are Python lists \<open>[column, row]\<close>, both counted
  from 1.  Which list objects share memory is not visible at this level; the
  theory \<open>Aliasing\<close> models the object store and shows when this level is
  exact.
\<close>

section \<open>State and operations\<close>

record sudoku =
  numbers :: grid

text \<open>\<open>[[None for j in range(9)] for i in range(9)]\<close>\<close>

definition empty_grid :: grid where
  "empty_grid = replicate 9 (replicate 9 None)"

text \<open>\<open>__init__(numbers=None)\<close>: the argument \<open>None\<close> is \<open>None\<close> here and a
  list is \<open>Some\<close>; \<open>if not numbers\<close> is true for \<open>None\<close> and for \<open>[]\<close>.\<close>

definition sudoku_init :: "grid option \<Rightarrow> sudoku" where
  "sudoku_init arg =
     (let ns = (case arg of None \<Rightarrow> empty_grid
                | Some g \<Rightarrow> (if g = [] then empty_grid else g))
      in \<lparr>numbers = ns\<rparr>)"

text \<open>The two \<open>assert\<close> statements that open \<open>get_cell\<close> and
  \<open>set_cell\<close>: the column against the length of the first row, then the row
  against the number of rows.  Each is a chained comparison, so
  \<open>len(self.numbers[0])\<close> is evaluated only when \<open>1 <= pos[0]\<close>.\<close>

definition check_pos :: "sudoku \<Rightarrow> int list \<Rightarrow> (int \<times> int) py" where
  "check_pos s pos =
     py_bind (py_index pos 0) (\<lambda>c.
     py_bind (py_le_chain 1 c (py_bind (py_index (numbers s) 0) (\<lambda>r0. Inr (py_len r0)))) (\<lambda>ok.
     py_bind (py_assert ok (ColumnInvalid c)) (\<lambda>_.
     py_bind (py_index pos 1) (\<lambda>r.
     py_bind (py_le_chain 1 r (Inr (py_len (numbers s)))) (\<lambda>ok'.
     py_bind (py_assert ok' (RowInvalid r)) (\<lambda>_. Inr (c, r)))))))"

definition get_cell :: "sudoku \<Rightarrow> int list \<Rightarrow> cell py" where
  "get_cell s pos =
     py_bind (check_pos s pos) (\<lambda>(c, r).
     py_bind (py_index (numbers s) (r - 1)) (\<lambda>row.
     py_index row (c - 1)))"

definition get_sudoku :: "sudoku \<Rightarrow> grid" where
  "get_sudoku s = numbers s"

text \<open>\<open>assert 1 <= value <= 9 or value is None\<close>: for \<open>None\<close> the first
  comparison \<open>1 <= None\<close> raises \<open>TypeError\<close> before the \<open>or\<close> is
  reached.\<close>

definition check_value :: "cell \<Rightarrow> unit py" where
  "check_value v =
     (case v of
        None \<Rightarrow> Inl TypeError
      | Some n \<Rightarrow> py_assert (1 \<le> n \<and> n \<le> 9) (ValueInvalid v))"

text \<open>\<open>self.numbers[pos[1] - 1][pos[0] - 1] = value\<close>: the row is read, then
  stored into at the column index.\<close>

definition set_cell :: "sudoku \<Rightarrow> int list \<Rightarrow> cell \<Rightarrow> sudoku py" where
  "set_cell s pos v =
     py_bind (check_pos s pos) (\<lambda>(c, r).
     py_bind (check_value v) (\<lambda>_.
     py_bind (py_index (numbers s) (r - 1)) (\<lambda>row.
     py_bind (py_store row (c - 1) v) (\<lambda>row'.
     Inr (s\<lparr>numbers := (numbers s)[nat (r - 1) := row']\<rparr>)))))"

definition set_sudoku :: "sudoku \<Rightarrow> grid \<Rightarrow> sudoku" where
  "set_sudoku s g = s\<lparr>numbers := g\<rparr>"

section \<open>The board's abstract view\<close>

text \<open>A well-formed grid is 9 by 9; a cell holds \<open>None\<close> or a digit.\<close>

definition wf_grid :: "grid \<Rightarrow> bool" where
  "wf_grid g \<longleftrightarrow> length g = 9 \<and> list_all (\<lambda>row. length row = 9) g"

fun cell_ok :: "cell \<Rightarrow> bool" where
  "cell_ok None = True"
| "cell_ok (Some n) = (1 \<le> n \<and> n \<le> 9)"

definition cells_ok :: "grid \<Rightarrow> bool" where
  "cells_ok g \<longleftrightarrow> list_all (list_all cell_ok) g"

definition valid_pos :: "int \<Rightarrow> int \<Rightarrow> bool" where
  "valid_pos c r \<longleftrightarrow> 1 \<le> c \<and> c \<le> 9 \<and> 1 \<le> r \<and> r \<le> 9"

definition cell_at :: "grid \<Rightarrow> int \<Rightarrow> int \<Rightarrow> cell" where
  "cell_at g c r = g ! nat (r - 1) ! nat (c - 1)"

definition put_cell :: "grid \<Rightarrow> int \<Rightarrow> int \<Rightarrow> cell \<Rightarrow> grid" where
  "put_cell g c r v = g[nat (r - 1) := (g ! nat (r - 1))[nat (c - 1) := v]]"

section \<open>Evaluation of the guards and of the operations\<close>


lemma wf_grid_length: "wf_grid g \<Longrightarrow> length g = 9"
  by (simp add: wf_grid_def)

lemma wf_grid_row_length:
  "wf_grid g \<Longrightarrow> i < 9 \<Longrightarrow> length (g ! i) = 9"
  by (simp add: wf_grid_def list_all_length)

lemma wf_grid_first_row:
  "wf_grid g \<Longrightarrow> py_index g 0 = Inr (g ! 0) \<and> length (g ! 0) = 9"
  by (simp add: py_simps wf_grid_length wf_grid_row_length)

lemma valid_pos_index:
  assumes "valid_pos c r"
  shows "0 \<le> c - 1" "c - 1 < 9" "0 \<le> r - 1" "r - 1 < 9" "nat (c - 1) < 9" "nat (r - 1) < 9"
  using assms unfolding valid_pos_def by linarith+

lemma py_index_digit:
  "1 \<le> k \<Longrightarrow> k \<le> 9 \<Longrightarrow> length xs = 9 \<Longrightarrow> py_index xs (k - 1) = Inr (xs ! nat (k - 1))"
  by (rule py_index_in_range) simp_all

lemma py_store_digit:
  "1 \<le> k \<Longrightarrow> k \<le> 9 \<Longrightarrow> length xs = 9 \<Longrightarrow> py_store xs (k - 1) v = Inr (xs[nat (k - 1) := v])"
  by (rule py_store_in_range) simp_all

lemma valid_pos_nat_eq:
  assumes "valid_pos c r" "valid_pos c' r'"
  shows "nat (c - 1) = nat (c' - 1) \<longleftrightarrow> c = c'" "nat (r - 1) = nat (r' - 1) \<longleftrightarrow> r = r'"
  using assms by (simp_all add: valid_pos_def eq_nat_nat_iff)

lemma check_pos_valid:
  assumes "wf_grid (numbers s)" and "valid_pos c r"
  shows "check_pos s (c # r # rest) = Inr (c, r)"
proof -
  from wf_grid_first_row [OF assms(1)] show ?thesis
    using assms by (simp add: check_pos_def valid_pos_def wf_grid_length)
qed

lemma check_pos_column_high:
  assumes "wf_grid (numbers s)" and "9 < c"
  shows "check_pos s (c # rest) = Inl (AssertionError (ColumnInvalid c))"
proof -
  from wf_grid_first_row [OF assms(1)] show ?thesis
    using assms by (simp add: check_pos_def)
qed

lemma check_pos_row_invalid:
  assumes "wf_grid (numbers s)" and "1 \<le> c" "c \<le> 9" and "r < 1 \<or> 9 < r"
  shows "check_pos s (c # r # rest) = Inl (AssertionError (RowInvalid r))"
proof -
  from wf_grid_first_row [OF assms(1)] show ?thesis
    using assms by (auto simp add: check_pos_def wf_grid_length)
qed

lemma get_cell_valid:
  assumes "wf_grid (numbers s)" and "valid_pos c r"
  shows "get_cell s (c # r # rest) = Inr (cell_at (numbers s) c r)"
proof -
  have row: "py_index (numbers s) (r - 1) = Inr (numbers s ! nat (r - 1))"
    using assms by (intro py_index_digit) (simp_all add: valid_pos_def wf_grid_length)
  have "length (numbers s ! nat (r - 1)) = 9"
    using assms by (simp add: wf_grid_row_length valid_pos_index)
  then have "py_index (numbers s ! nat (r - 1)) (c - 1) = Inr (cell_at (numbers s) c r)"
    using assms(2) by (simp add: py_index_digit valid_pos_def cell_at_def)
  with row show ?thesis
    using assms by (simp add: get_cell_def check_pos_valid)
qed

lemma set_cell_valid:
  assumes "wf_grid (numbers s)" and "valid_pos c r" and "cell_ok v" and "v \<noteq> None"
  shows "set_cell s (c # r # rest) v = Inr (s\<lparr>numbers := put_cell (numbers s) c r v\<rparr>)"
proof -
  have row: "py_index (numbers s) (r - 1) = Inr (numbers s ! nat (r - 1))"
    using assms by (intro py_index_digit) (simp_all add: valid_pos_def wf_grid_length)
  have "length (numbers s ! nat (r - 1)) = 9"
    using assms by (simp add: wf_grid_row_length valid_pos_index)
  then have st: "py_store (numbers s ! nat (r - 1)) (c - 1) v
      = Inr ((numbers s ! nat (r - 1))[nat (c - 1) := v])"
    using assms(2) by (simp add: py_store_digit valid_pos_def)
  from assms(3,4) have "check_value v = Inr ()"
    by (cases v) (simp_all add: check_value_def)
  with row st show ?thesis
    using assms by (simp add: set_cell_def check_pos_valid put_cell_def)
qed

lemma set_cell_None:
  assumes "wf_grid (numbers s)" and "valid_pos c r"
  shows "set_cell s (c # r # rest) None = Inl TypeError"
  using assms by (simp add: set_cell_def check_pos_valid check_value_def)

lemma set_cell_bad_value:
  assumes "wf_grid (numbers s)" and "valid_pos c r" and "\<not> cell_ok v"
  shows "set_cell s (c # r # rest) v = Inl (AssertionError (ValueInvalid v))"
  using assms by (cases v) (auto simp add: set_cell_def check_pos_valid check_value_def)

lemma wf_grid_put_cell:
  "wf_grid g \<Longrightarrow> valid_pos c r \<Longrightarrow> wf_grid (put_cell g c r v)"
  by (auto simp add: wf_grid_def put_cell_def list_all_length nth_list_update valid_pos_index)

lemma cell_at_put_cell:
  assumes "wf_grid g" "valid_pos c r" "valid_pos c' r'"
  shows "cell_at (put_cell g c r v) c' r' = (if c' = c \<and> r' = r then v else cell_at g c' r')"
proof -
  have "nat (r - 1) < length g" "nat (c - 1) < length (g ! nat (r - 1))"
    using assms by (simp_all add: wf_grid_length wf_grid_row_length valid_pos_index)
  then show ?thesis
    using valid_pos_nat_eq [OF assms(2,3)]
    by (auto simp add: cell_at_def put_cell_def nth_list_update)
qed

lemma empty_grid_wf: "wf_grid empty_grid"
  by (simp add: wf_grid_def empty_grid_def list_all_iff)

lemma empty_grid_cells: "cells_ok empty_grid"
  by (simp add: cells_ok_def empty_grid_def list_all_iff)

lemma check_pos_Inr:
  assumes "wf_grid (numbers s)" and "check_pos s pos = Inr p"
  shows "\<exists>c r rest. pos = c # r # rest \<and> p = (c, r) \<and> valid_pos c r"
proof (cases pos rule: remdups_adj.cases)
  case 1
  with assms(2) show ?thesis by (simp add: check_pos_def)
next
  case (2 c)
  with assms show ?thesis
    by (auto simp add: check_pos_def py_le_chain_def py_assert_def py_bind_eq_Inr
        py_simps wf_grid_length split: if_splits)
next
  case (3 c r rest)
  with assms show ?thesis
    by (auto simp add: check_pos_def py_le_chain_def py_assert_def py_bind_eq_Inr
        py_simps wf_grid_length wf_grid_row_length valid_pos_def split: if_splits)
qed

lemma set_cell_Inr:
  assumes "wf_grid (numbers s)" and "set_cell s pos v = Inr s'"
  shows "\<exists>c r rest. pos = c # r # rest \<and> valid_pos c r \<and> cell_ok v \<and> v \<noteq> None \<and>
           s' = s\<lparr>numbers := put_cell (numbers s) c r v\<rparr>"
proof -
  obtain p where p: "check_pos s pos = Inr p"
    using assms(2) by (cases "check_pos s pos") (simp_all add: set_cell_def)
  then obtain c r rest where pos: "pos = c # r # rest" "p = (c, r)" "valid_pos c r"
    using check_pos_Inr [OF assms(1)] by blast
  have v: "cell_ok v \<and> v \<noteq> None"
  proof (cases v)
    case None
    with assms pos show ?thesis by (simp add: set_cell_None)
  next
    case (Some n)
    show ?thesis
    proof (rule ccontr)
      assume "\<not> (cell_ok v \<and> v \<noteq> None)"
      with Some have "\<not> cell_ok v" by simp
      with assms pos show False by (simp add: set_cell_bad_value)
    qed
  qed
  with assms pos show ?thesis
    by (auto simp add: set_cell_valid)
qed

lemma sudoku_init_None_numbers: "numbers (sudoku_init None) = empty_grid"
  by (simp add: sudoku_init_def)

lemma empty_grid_cell_at: "valid_pos c r \<Longrightarrow> cell_at empty_grid c r = None"
  by (simp add: empty_grid_def cell_at_def valid_pos_index)

lemma check_pos_column_low:
  "c < 1 \<Longrightarrow> check_pos s (c # rest) = Inl (AssertionError (ColumnInvalid c))"
  by (simp add: check_pos_def)

lemma check_pos_invalid:
  assumes "wf_grid (numbers s)" and "\<not> valid_pos c r"
  shows "check_pos s (c # r # rest) =
           Inl (AssertionError (if c < 1 \<or> 9 < c then ColumnInvalid c else RowInvalid r))"
proof (cases "c < 1 \<or> 9 < c")
  case True
  with assms(1) show ?thesis
    by (auto simp add: check_pos_column_low check_pos_column_high)
next
  case False
  with assms have "r < 1 \<or> 9 < r" by (auto simp add: valid_pos_def)
  with False assms(1) show ?thesis
    by (simp add: check_pos_row_invalid)
qed

lemma cells_ok_put_cell:
  assumes "wf_grid g" "cells_ok g" "valid_pos c r" "cell_ok v"
  shows "cells_ok (put_cell g c r v)"
proof -
  have "nat (r - 1) < length g" "nat (c - 1) < length (g ! nat (r - 1))"
    using assms by (simp_all add: wf_grid_length wf_grid_row_length valid_pos_index)
  with assms show ?thesis
    by (auto simp add: cells_ok_def put_cell_def list_all_length nth_list_update)
qed

text \<open>C1. Writing a digit into a valid cell and reading the cell back gives
  the digit.\<close>

theorem set_cell_get_cell:
  assumes "wf_grid (numbers s)" and "valid_pos c r" and "1 \<le> n" and "n \<le> 9"
  shows "\<exists>s'. set_cell s [c, r] (Some n) = Inr s' \<and> get_cell s' [c, r] = Inr (Some n)"
proof -
  let ?s' = "s\<lparr>numbers := put_cell (numbers s) c r (Some n)\<rparr>"
  have "set_cell s [c, r] (Some n) = Inr ?s'"
    using assms by (simp add: set_cell_valid)
  moreover have "get_cell ?s' [c, r] = Inr (Some n)"
    using assms by (simp add: get_cell_valid wf_grid_put_cell cell_at_put_cell)
  ultimately show ?thesis by blast
qed

theorem set_cell_get_cell_witness:
  "wf_grid (numbers (sudoku_init None)) \<and> valid_pos 4 7 \<and>
   (\<exists>s'. set_cell (sudoku_init None) [4, 7] (Some 5) = Inr s' \<and> get_cell s' [4, 7] = Inr (Some 5))"
  using set_cell_get_cell [of "sudoku_init None" 4 7 5]
  by (simp add: sudoku_init_None_numbers empty_grid_wf valid_pos_def)

text \<open>C2. \<open>set_cell\<close> never succeeds with the value \<open>None\<close>.\<close>

theorem set_cell_cannot_clear: "set_cell s pos None \<noteq> Inr s'"
  by (cases "check_pos s pos") (auto simp add: set_cell_def check_value_def)

text \<open>C3. At a valid position of a 9 by 9 board, \<open>set_cell\<close> with \<open>None\<close>
  raises \<open>TypeError\<close> (from \<open>1 <= None\<close>), not an assertion.\<close>

theorem set_cell_None_TypeError:
  "wf_grid (numbers s) \<Longrightarrow> valid_pos c r \<Longrightarrow> set_cell s [c, r] None = Inl TypeError"
  by (simp add: set_cell_None)

theorem set_cell_None_TypeError_witness:
  "set_cell (sudoku_init None) [3, 3] None = Inl TypeError"
  using set_cell_None_TypeError [of "sudoku_init None" 3 3]
  by (simp add: sudoku_init_None_numbers empty_grid_wf valid_pos_def)

text \<open>C4. \<open>get_cell\<close> at a position outside 1..9 raises the column assertion
  when the column is out of range, the row assertion otherwise.\<close>

theorem get_cell_invalid_pos:
  assumes "wf_grid (numbers s)" and "\<not> valid_pos c r"
  shows "get_cell s [c, r] =
           Inl (AssertionError (if c < 1 \<or> 9 < c then ColumnInvalid c else RowInvalid r))"
  using assms by (simp add: get_cell_def check_pos_invalid)

theorem get_cell_invalid_pos_witness:
  "get_cell (sudoku_init None) [10, 0] = Inl (AssertionError (ColumnInvalid 10)) \<and>
   get_cell (sudoku_init None) [2, 0] = Inl (AssertionError (RowInvalid 0))"
  using get_cell_invalid_pos [of "sudoku_init None" 10 0] get_cell_invalid_pos [of "sudoku_init None" 2 0]
  by (simp add: sudoku_init_None_numbers empty_grid_wf valid_pos_def)

text \<open>C5. \<open>set_cell\<close> checks the position before the value: at an invalid
  position it raises the position assertion whatever the value.\<close>

theorem set_cell_invalid_pos:
  assumes "wf_grid (numbers s)" and "\<not> valid_pos c r"
  shows "set_cell s [c, r] v =
           Inl (AssertionError (if c < 1 \<or> 9 < c then ColumnInvalid c else RowInvalid r))"
  using assms by (simp add: set_cell_def check_pos_invalid)

theorem set_cell_invalid_pos_witness:
  "set_cell (sudoku_init None) [0, 5] None = Inl (AssertionError (ColumnInvalid 0))"
  using set_cell_invalid_pos [of "sudoku_init None" 0 5 None]
  by (simp add: sudoku_init_None_numbers empty_grid_wf valid_pos_def)

text \<open>C6. A value outside 1..9 at a valid position raises the value
  assertion.\<close>

theorem set_cell_rejects_value:
  assumes "wf_grid (numbers s)" and "valid_pos c r" and "n < 1 \<or> 9 < n"
  shows "set_cell s [c, r] (Some n) = Inl (AssertionError (ValueInvalid (Some n)))"
  using assms by (auto simp add: set_cell_bad_value)

theorem set_cell_rejects_value_witness:
  "set_cell (sudoku_init None) [1, 2] (Some 10) = Inl (AssertionError (ValueInvalid (Some 10)))"
  using set_cell_rejects_value [of "sudoku_init None" 1 2 10]
  by (simp add: sudoku_init_None_numbers empty_grid_wf valid_pos_def)

text \<open>C7. \<open>set_cell\<close> keeps a 9 by 9 board of empty cells and digits
  9 by 9 and made of empty cells and digits, at any position list.\<close>

theorem set_cell_preserves_invariant:
  assumes "wf_grid (numbers s)" and "cells_ok (numbers s)" and "set_cell s pos v = Inr s'"
  shows "wf_grid (numbers s') \<and> cells_ok (numbers s')"
proof -
  from set_cell_Inr [OF assms(1,3)] obtain c r rest where
    "valid_pos c r" "cell_ok v" "s' = s\<lparr>numbers := put_cell (numbers s) c r v\<rparr>"
    by blast
  with assms(1,2) show ?thesis
    by (simp add: wf_grid_put_cell cells_ok_put_cell)
qed

theorem set_cell_preserves_invariant_witness:
  "wf_grid (numbers \<lparr>numbers = put_cell empty_grid 9 9 (Some 1)\<rparr>) \<and>
   cells_ok (numbers \<lparr>numbers = put_cell empty_grid 9 9 (Some 1)\<rparr>)"
proof -
  have "set_cell (sudoku_init None) [9, 9] (Some 1) = Inr \<lparr>numbers = put_cell empty_grid 9 9 (Some 1)\<rparr>"
    by (simp add: set_cell_valid sudoku_init_None_numbers empty_grid_wf valid_pos_def sudoku_init_def)
  then show ?thesis
    using set_cell_preserves_invariant [of "sudoku_init None" "[9, 9]" "Some 1"]
    by (simp add: sudoku_init_None_numbers empty_grid_wf empty_grid_cells)
qed

text \<open>C8. A position list with fewer than two entries: \<open>[]\<close> raises
  \<open>IndexError\<close> from \<open>pos[0]\<close>; \<open>[c]\<close> raises the column assertion
  when \<open>c\<close> is outside 1..9, and \<open>IndexError\<close> from \<open>pos[1]\<close>
  otherwise.\<close>

theorem get_cell_short_pos:
  assumes "wf_grid (numbers s)"
  shows "get_cell s [] = Inl IndexError \<and>
         get_cell s [c] = Inl (if 1 \<le> c \<and> c \<le> 9 then IndexError else AssertionError (ColumnInvalid c))"
proof -
  from wf_grid_first_row [OF assms] show ?thesis
    by (auto simp add: get_cell_def check_pos_def)
qed

theorem get_cell_short_pos_witness:
  "get_cell (sudoku_init None) [] = Inl IndexError \<and>
   get_cell (sudoku_init None) [5] = Inl IndexError \<and>
   get_cell (sudoku_init None) [10] = Inl (AssertionError (ColumnInvalid 10))"
  using get_cell_short_pos [of "sudoku_init None" 5] get_cell_short_pos [of "sudoku_init None" 10]
  by (simp add: sudoku_init_None_numbers empty_grid_wf)

text \<open>C9. A board constructed without a grid, or with the empty list, reads
  \<open>None\<close> at every valid position.\<close>

theorem sudoku_init_empty:
  assumes "valid_pos c r" and "arg = None \<or> arg = Some []"
  shows "get_cell (sudoku_init arg) [c, r] = Inr None"
proof -
  have "numbers (sudoku_init arg) = empty_grid"
    using assms(2) by (auto simp add: sudoku_init_def)
  with assms(1) show ?thesis
    by (simp add: get_cell_valid empty_grid_wf empty_grid_cell_at)
qed

theorem sudoku_init_empty_witness:
  "get_cell (sudoku_init (Some [])) [9, 1] = Inr None"
  using sudoku_init_empty [of 9 1 "Some []"] by (simp add: valid_pos_def)

text \<open>C10. \<open>set_sudoku\<close> checks nothing: after \<open>set_sudoku([])\<close> every
  \<open>get_cell\<close> with a column of at least 1 raises \<open>IndexError\<close> from
  \<open>self.numbers[0]\<close>, not the assertion a bad position gets.\<close>

theorem set_sudoku_empty_get_cell:
  "1 \<le> c \<Longrightarrow> get_cell (set_sudoku s []) (c # rest) = Inl IndexError"
  by (simp add: get_cell_def check_pos_def set_sudoku_def)

theorem set_sudoku_empty_get_cell_witness:
  "get_cell (set_sudoku (sudoku_init None) []) [1, 1] = Inl IndexError"
  using set_sudoku_empty_get_cell [of 1 "sudoku_init None" "[1]"] by simp

text \<open>C11. After \<open>set_sudoku(g)\<close> with a 9 by 9 grid \<open>g\<close>, \<open>get_cell\<close>
  reads the cells of \<open>g\<close> and \<open>get_sudoku\<close> returns \<open>g\<close>.\<close>

theorem set_sudoku_roundtrip:
  assumes "wf_grid g" and "valid_pos c r"
  shows "get_cell (set_sudoku s g) [c, r] = Inr (cell_at g c r) \<and> get_sudoku (set_sudoku s g) = g"
  using assms by (simp add: set_sudoku_def get_sudoku_def get_cell_valid)

theorem set_sudoku_roundtrip_witness:
  "get_cell (set_sudoku (sudoku_init None) (put_cell empty_grid 2 3 (Some 7))) [2, 3] = Inr (Some 7)"
proof -
  have "wf_grid (put_cell empty_grid 2 3 (Some 7))" "valid_pos 2 3"
    by (simp_all add: wf_grid_put_cell empty_grid_wf valid_pos_def)
  moreover have "cell_at (put_cell empty_grid 2 3 (Some 7)) 2 3 = Some 7"
    by (simp add: cell_at_put_cell empty_grid_wf valid_pos_def)
  ultimately show ?thesis
    using set_sudoku_roundtrip [of "put_cell empty_grid 2 3 (Some 7)" 2 3 "sudoku_init None"]
    by simp
qed

text \<open>C12. \<open>get_cell\<close> checks the column only against the first row: on a
  grid whose row \<open>r\<close> is shorter than the first, a column beyond row
  \<open>r\<close>'s end passes the assertions and raises \<open>IndexError\<close>.\<close>

theorem get_cell_ragged_row:
  assumes "numbers s = row0 # rows" and "1 \<le> r" and "r \<le> int (length (numbers s))"
    and "int (length (numbers s ! nat (r - 1))) < c" and "c \<le> int (length row0)"
  shows "get_cell s [c, r] = Inl IndexError"
proof -
  have "1 \<le> c" using assms(4) by linarith
  then have "check_pos s [c, r] = Inr (c, r)"
    using assms by (simp add: check_pos_def)
  moreover have "py_index (numbers s) (r - 1) = Inr (numbers s ! nat (r - 1))"
    using assms(2,3) by (simp add: py_simps)
  moreover have "py_index (numbers s ! nat (r - 1)) (c - 1) = Inl IndexError"
    using assms(4) \<open>1 \<le> c\<close> by (simp add: py_index_eq_Inl)
  ultimately show ?thesis by (simp add: get_cell_def)
qed

theorem get_cell_ragged_row_witness:
  "get_cell (set_sudoku (sudoku_init None) [replicate 9 None, [None]]) [9, 2] = Inl IndexError"
  using get_cell_ragged_row [of "set_sudoku (sudoku_init None) [replicate 9 None, [None]]"
      "replicate 9 None" "[[None]]" 2 9]
  by (simp add: set_sudoku_def)

end
