(* ===== verification/Validate.thy ===== *)
theory Validate
  imports Board
begin

text \<open>
  \<open>Sudoku.validate\<close> of \<open>src/my_sudoku.py\<close> (lines 52--78).  It scans
  every row for a repeated entry, then, for each index \<open>col\<close> below the
  length of the first row, a list it calls the column, and then builds the
  list \<open>boxes\<close> of the first 3 by 3 box and ends without a \<open>return\<close>: the
  method returns \<open>False\<close> or Python's \<open>None\<close>, never \<open>True\<close>.  The result
  is modelled as \<open>bool option py\<close>: \<open>Inr (Some False)\<close> for
  \<open>return False\<close>, \<open>Inr None\<close> for falling off the end, \<open>Inl\<close> for an
  exception.  The scan compares with \<open>in\<close>, so \<open>None\<close> counts as a value
  and two empty cells in a line are a repetition.

  The theory also states the spec's notion of a consistent board
  (\<open>consistent\<close>: no digit twice in a row, a column or a box; empty cells
  ignored) so that what \<open>validate\<close> answers can be compared with it.
\<close>

section \<open>The code\<close>

text \<open>The inner loop shared by the row and the column phase:
  \<^verbatim>\<open>numbers_in_row = []
for number in row:
    if number in numbers_in_row: return False
    else: numbers_in_row.append(number)\<close>
  \<open>True\<close> when the loop runs to its end, \<open>False\<close> when it returns.\<close>

fun scan_line :: "cell list \<Rightarrow> cell list \<Rightarrow> bool" where
  "scan_line seen [] = True"
| "scan_line seen (x # xs) = (if x \<in> set seen then False else scan_line (seen @ [x]) xs)"

text \<open>\<open>for row in self.numbers: ...\<close>\<close>

fun validate_rows :: "grid \<Rightarrow> bool" where
  "validate_rows [] = True"
| "validate_rows (row # rows) = (if scan_line [] row then validate_rows rows else False)"

text \<open>\<open>column = [self.numbers[col][i] for i in range(len(self.numbers))]\<close>:
  the subscripts are applied in this order, row index \<open>col\<close> first.\<close>

definition column_of :: "grid \<Rightarrow> int \<Rightarrow> cell list py" where
  "column_of g col =
     py_map (\<lambda>i. py_bind (py_index g col) (\<lambda>row. py_index row i)) (py_range (py_len g))"

text \<open>\<open>for col in range(...): column = ...; (scan)\<close>\<close>

fun validate_columns :: "grid \<Rightarrow> int list \<Rightarrow> bool py" where
  "validate_columns g [] = Inr True"
| "validate_columns g (col # cols) =
     py_bind (column_of g col) (\<lambda>column.
       if scan_line [] column then validate_columns g cols else Inr False)"

text \<open>The list assigned to \<open>boxes\<close> in the last statement: the cells of the
  first box only, as \<open>(column, row)\<close> pairs.\<close>

definition boxes :: "(int \<times> int) list list" where
  "boxes = [[(1, 1), (2, 1), (3, 1), (1, 2), (2, 2), (3, 2), (1, 3), (2, 3), (3, 3)]]"

text \<open>The whole method.  \<open>range(len(self.numbers[0]))\<close> is evaluated once,
  before the first column, and raises on an empty grid.\<close>

definition validate :: "sudoku \<Rightarrow> bool option py" where
  "validate s =
     (if \<not> validate_rows (numbers s) then Inr (Some False)
      else
        py_bind (py_index (numbers s) 0) (\<lambda>row0.
        py_bind (validate_columns (numbers s) (py_range (py_len row0))) (\<lambda>ok.
          if \<not> ok then Inr (Some False)
          else (let bx = boxes in Inr None))))"

section \<open>The specification's consistency\<close>

text \<open>The digits of a line, empty cells left out.\<close>

definition present :: "cell list \<Rightarrow> int list" where
  "present xs = [n. Some n \<leftarrow> xs]"

definition column_cells :: "grid \<Rightarrow> nat \<Rightarrow> cell list" where
  "column_cells g j = map (\<lambda>row. row ! j) g"

text \<open>Box \<open>(bi, bj)\<close> is block row \<open>bi\<close>, block column \<open>bj\<close>, each 0..2.\<close>

definition box_cells :: "grid \<Rightarrow> nat \<Rightarrow> nat \<Rightarrow> cell list" where
  "box_cells g bi bj = [g ! (3 * bi + i) ! (3 * bj + j). i \<leftarrow> [0..<3], j \<leftarrow> [0..<3]]"

definition consistent :: "grid \<Rightarrow> bool" where
  "consistent g \<longleftrightarrow>
     list_all (\<lambda>row. distinct (present row)) g \<and>
     list_all (\<lambda>j. distinct (present (column_cells g j))) [0..<9] \<and>
     list_all (\<lambda>(bi, bj). distinct (present (box_cells g bi bj))) (List.product [0..<3] [0..<3])"

section \<open>Example boards\<close>

text \<open>A solved sudoku.\<close>

definition solved_grid :: grid where
  "solved_grid = map (map Some)
     [[5,3,4,6,7,8,9,1,2],[6,7,2,1,9,5,3,4,8],[1,9,8,3,4,2,5,6,7],
      [8,5,9,7,6,1,4,2,3],[4,2,6,8,5,3,7,9,1],[7,1,3,9,2,4,8,5,6],
      [9,6,1,5,3,7,2,8,4],[2,8,7,4,1,9,6,3,5],[3,4,5,2,8,6,1,7,9]]"

section \<open>What validate computes\<close>

lemma scan_line_iff:
  "scan_line seen xs \<longleftrightarrow> distinct xs \<and> set xs \<inter> set seen = {}"
  by (induction seen xs rule: scan_line.induct) auto

lemma validate_rows_iff: "validate_rows g \<longleftrightarrow> list_all distinct g"
  by (induction g) (simp_all add: scan_line_iff)

lemma column_of_wf:
  assumes "wf_grid g" and "0 \<le> col" and "col < 9"
  shows "column_of g col = Inr (g ! nat col)"
proof -
  have len: "length (g ! nat col) = 9"
    using assms by (simp add: wf_grid_row_length)
  have row: "py_index g col = Inr (g ! nat col)"
    using assms by (simp add: py_simps wf_grid_length)
  have rng: "py_range (py_len g) = map int [0..<9]"
    using assms(1) by (simp add: wf_grid_length)
  have "py_map (\<lambda>i. py_bind (py_index g col) (\<lambda>row. py_index row i)) (map int [0..<9])
      = Inr (map (\<lambda>i. g ! nat col ! nat i) (map int [0..<9]))"
    using len row by (intro py_map_Inr) auto
  also have "map (\<lambda>i. g ! nat col ! nat i) (map int [0..<9]) = g ! nat col"
    by (rule nth_equalityI) (simp_all add: len)
  finally show ?thesis
    unfolding column_of_def rng .
qed

lemma validate_columns_all:
  "(\<And>col. col \<in> set cols \<Longrightarrow> column_of g col = Inr (f col)) \<Longrightarrow>
   validate_columns g cols = Inr (list_all (\<lambda>col. distinct (f col)) cols)"
  by (induction cols) (simp_all add: scan_line_iff)

lemma validate_wf_grid:
  assumes "wf_grid (numbers s)"
  shows "validate s = Inr (if list_all distinct (numbers s) then None else Some False)"
proof (cases "list_all distinct (numbers s)")
  case False
  then show ?thesis by (simp add: validate_def validate_rows_iff)
next
  case True
  let ?g = "numbers s"
  have r0: "py_index ?g 0 = Inr (?g ! 0)" and len0: "length (?g ! 0) = 9"
    using wf_grid_first_row [OF assms] by simp_all
  have cols: "validate_columns ?g (map int [0..<9])
      = Inr (list_all (\<lambda>col. distinct (?g ! nat col)) (map int [0..<9]))"
    using assms by (intro validate_columns_all) (auto simp add: column_of_wf)
  have "list_all (\<lambda>col. distinct (?g ! nat col)) (map int [0..<9])"
    using True assms by (auto simp add: list_all_length wf_grid_length)
  with True r0 len0 cols show ?thesis
    by (simp add: validate_def validate_rows_iff)
qed


lemma distinct_present_all_Some:
  "list_all (\<lambda>x. x \<noteq> None) xs \<Longrightarrow> distinct (present xs) \<Longrightarrow> distinct xs"
  by (induction xs) (auto simp add: present_def)

text \<open>On any non-empty grid: the comprehension for index \<open>col\<close> reads the
  first \<open>len(self.numbers)\<close> entries of row \<open>col\<close>, or raises
  \<open>IndexError\<close> when that row is missing or shorter.\<close>

lemma column_of_any:
  assumes "g \<noteq> []" and "0 \<le> col"
  shows "column_of g col =
           (if col < int (length g) \<and> length g \<le> length (g ! nat col)
            then Inr (take (length g) (g ! nat col)) else Inl IndexError)"
proof -
  let ?f = "\<lambda>i. py_bind (py_index g col) (\<lambda>row. py_index row i)"
  have rng: "py_range (py_len g) = map int [0..<length g]" by simp
  show ?thesis
  proof (cases "col < int (length g) \<and> length g \<le> length (g ! nat col)")
    case True
    then have row: "py_index g col = Inr (g ! nat col)"
      using assms(2) by (simp add: py_index_eq_Inr py_norm_index_def)
    have "py_map ?f (map int [0..<length g]) = Inr (map (\<lambda>i. g ! nat col ! nat i) (map int [0..<length g]))"
      using True row by (intro py_map_Inr) auto
    also have "map (\<lambda>i. g ! nat col ! nat i) (map int [0..<length g]) = take (length g) (g ! nat col)"
      using True by (intro nth_equalityI) simp_all
    finally show ?thesis using True by (simp add: column_of_def)
  next
    case False
    have only: "e' = IndexError" if "?f i = Inl e'" for i e'
      using that by (auto simp add: py_bind_eq_Inl py_index_eq_Inl)
    have "\<exists>i\<in>set (map int [0..<length g]). ?f i = Inl IndexError"
    proof (cases "col < int (length g)")
      case True
      with False have "length (g ! nat col) < length g" by simp
      moreover have "py_index g col = Inr (g ! nat col)"
        using True assms(2) by (simp add: py_index_eq_Inr py_norm_index_def)
      ultimately show ?thesis
        by (intro bexI [of _ "int (length (g ! nat col))"]) (simp_all add: py_index_eq_Inl)
    next
      case False
      then have "py_index g col = Inl IndexError" by (simp add: py_index_eq_Inl)
      with assms(1) show ?thesis by (intro bexI [of _ 0]) simp_all
    qed
    then obtain i where "i \<in> set (map int [0..<length g])" "?f i = Inl IndexError" by blast
    with only have "py_map ?f (map int [0..<length g]) = Inl IndexError"
      by (intro py_map_Inl_only) blast+
    with False show ?thesis by (simp add: column_of_def)
  qed
qed

lemma validate_columns_IndexError:
  "(\<And>col. col \<in> set cols \<Longrightarrow> column_of g col = Inl IndexError \<or> (\<exists>xs. column_of g col = Inr xs \<and> distinct xs)) \<Longrightarrow>
   validate_columns g cols =
     (if \<exists>col\<in>set cols. column_of g col = Inl IndexError then Inl IndexError else Inr True)"
proof (induction cols)
  case Nil
  then show ?case by simp
next
  case (Cons col cols)
  from Cons.prems [of col] consider "column_of g col = Inl IndexError"
    | xs where "column_of g col = Inr xs" "distinct xs" by auto
  then show ?case
  proof cases
    case 1
    then show ?thesis by simp
  next
    case 2
    with Cons show ?thesis by (simp add: scan_line_iff)
  qed
qed

text \<open>C13. The inner loop of \<open>validate\<close> runs to its end exactly when the
  line has no repeated entry (\<open>None\<close> included).\<close>

theorem scan_line_distinct: "scan_line [] xs \<longleftrightarrow> distinct xs"
  by (simp add: scan_line_iff)

text \<open>C14. \<open>validate\<close> never returns \<open>True\<close>, on any grid.\<close>

theorem validate_never_true: "validate s \<noteq> Inr (Some True)"
proof
  assume v: "validate s = Inr (Some True)"
  show False
  proof (cases "validate_rows (numbers s)")
    case False
    with v show False by (simp add: validate_def)
  next
    case True
    with v show False
      by (auto simp add: validate_def py_bind_eq_Inr split: if_splits)
  qed
qed

text \<open>C15. On a 9 by 9 grid the list the column phase scans for index
  \<open>col\<close> is row \<open>col\<close>: \<open>self.numbers[col][i]\<close> indexes the row first.\<close>

theorem column_of_is_row:
  "wf_grid g \<Longrightarrow> col < 9 \<Longrightarrow> column_of g (int col) = Inr (g ! col)"
  by (simp add: column_of_wf)

theorem column_of_is_row_witness:
  "column_of solved_grid 0 = Inr (solved_grid ! 0) \<and> solved_grid ! 0 \<noteq> column_cells solved_grid 0"
proof -
  have "wf_grid solved_grid" by code_simp
  then have "column_of solved_grid (int 0) = Inr (solved_grid ! 0)"
    using column_of_is_row [of solved_grid 0] by simp
  moreover have "solved_grid ! 0 \<noteq> column_cells solved_grid 0" by code_simp
  ultimately show ?thesis by simp
qed

text \<open>C16. On a 9 by 9 grid \<open>validate\<close> returns \<open>False\<close> exactly when some
  row repeats an entry (two empty cells included) and \<open>None\<close> otherwise.\<close>

theorem validate_9x9:
  assumes "wf_grid (numbers s)"
  shows "(validate s = Inr (Some False) \<longleftrightarrow> (\<exists>i<9. \<not> distinct (numbers s ! i))) \<and>
         (validate s = Inr None \<longleftrightarrow> (\<forall>i<9. distinct (numbers s ! i)))"
  using assms by (auto simp add: validate_wf_grid list_all_length wf_grid_length)

theorem validate_9x9_witness:
  "(validate \<lparr>numbers = empty_grid\<rparr> = Inr (Some False) \<longleftrightarrow> (\<exists>i<9. \<not> distinct (empty_grid ! i))) \<and>
   (validate \<lparr>numbers = empty_grid\<rparr> = Inr None \<longleftrightarrow> (\<forall>i<9. distinct (empty_grid ! i)))"
  using validate_9x9 [of "\<lparr>numbers = empty_grid\<rparr>"] by (simp add: empty_grid_wf)

text \<open>C17. On every grid, of any shape: \<open>validate\<close> returns \<open>False\<close>
  exactly when some row repeats an entry, whatever the columns hold; with
  distinct rows it raises \<open>IndexError\<close> when the grid is empty or when, for
  some index \<open>col\<close> below the length of the first row, there is no row
  \<open>col\<close> or row \<open>col\<close> is shorter than the number of rows; otherwise it
  returns \<open>None\<close>.\<close>

theorem validate_any_grid:
  "validate s =
     (if \<not> list_all distinct (numbers s) then Inr (Some False)
      else if numbers s = [] \<or>
              (\<exists>col < length (numbers s ! 0).
                 length (numbers s) \<le> col \<or> length (numbers s ! col) < length (numbers s))
      then Inl IndexError else Inr None)"
proof -
  let ?g = "numbers s"
  consider "\<not> list_all distinct ?g" | "list_all distinct ?g" "?g = []" | "list_all distinct ?g" "?g \<noteq> []"
    by blast
  then show ?thesis
  proof cases
    case 1
    then show ?thesis by (simp add: validate_def validate_rows_iff)
  next
    case 2
    then show ?thesis by (simp add: validate_def validate_rows_iff)
  next
    case 3
    let ?cols = "map int [0..<length (?g ! 0)]"
    have col: "column_of ?g (int k) =
        (if k < length ?g \<and> length ?g \<le> length (?g ! k) then Inr (take (length ?g) (?g ! k))
         else Inl IndexError)" for k
      using column_of_any [OF 3(2), of "int k"] by simp
    have dist: "distinct (take (length ?g) (?g ! k))" if "k < length ?g" for k
      using 3(1) that by (simp add: list_all_length)
    have "validate_columns ?g ?cols =
        (if \<exists>col\<in>set ?cols. column_of ?g col = Inl IndexError then Inl IndexError else Inr True)"
      by (rule validate_columns_IndexError) (auto simp add: col dist)
    moreover have "(\<exists>col\<in>set ?cols. column_of ?g col = Inl IndexError) \<longleftrightarrow>
        (\<exists>k < length (?g ! 0). length ?g \<le> k \<or> length (?g ! k) < length ?g)"
      by (auto simp add: col not_le)
    moreover have "py_index ?g 0 = Inr (?g ! 0)"
      using 3(2) by (simp add: py_index_eq_Inr py_norm_index_def)
    ultimately show ?thesis
      using 3 by (simp add: validate_def validate_rows_iff)
  qed
qed

theorem validate_any_grid_witness:
  "validate \<lparr>numbers = [[Some 1, Some 2], [Some 3]]\<rparr> = Inl IndexError"
  using validate_any_grid [of "\<lparr>numbers = [[Some 1, Some 2], [Some 3]]\<rparr>"]
  by (simp add: Ex_less_Suc)

text \<open>C18. Two equal entries in one row of a 9 by 9 board make \<open>validate\<close>
  return \<open>False\<close>.\<close>

theorem validate_row_duplicate:
  assumes "wf_grid (numbers s)" and "i < 9" "j < 9" "k < 9" "j \<noteq> k"
    and "numbers s ! i ! j = numbers s ! i ! k"
  shows "validate s = Inr (Some False)"
proof -
  have "length (numbers s ! i) = 9"
    using assms by (simp add: wf_grid_row_length)
  with assms have "\<not> distinct (numbers s ! i)"
    by (auto simp add: distinct_conv_nth)
  with assms show ?thesis
    by (auto simp add: validate_wf_grid list_all_length wf_grid_length)
qed

theorem validate_row_duplicate_witness:
  "validate \<lparr>numbers = put_cell (put_cell empty_grid 1 1 (Some 5)) 9 1 (Some 5)\<rparr> = Inr (Some False)"
proof -
  let ?g = "put_cell (put_cell empty_grid 1 1 (Some 5)) 9 1 (Some 5)"
  have "wf_grid ?g" by code_simp
  moreover have "?g ! 0 ! 0 = ?g ! 0 ! 8" by code_simp
  ultimately show ?thesis
    using validate_row_duplicate [of "\<lparr>numbers = ?g\<rparr>" 0 0 8] by simp
qed

text \<open>C19. A solved sudoku is consistent, and \<open>validate\<close> returns \<open>None\<close>
  on it, not \<open>True\<close>; so does every consistent 9 by 9 board without empty
  cells.\<close>

theorem validate_full_consistent:
  assumes "wf_grid g" and "consistent g" and "list_all (list_all (\<lambda>x. x \<noteq> None)) g"
  shows "validate \<lparr>numbers = g\<rparr> = Inr None"
proof -
  have "list_all distinct g"
    using assms(2,3) by (auto simp add: consistent_def list_all_iff distinct_present_all_Some)
  with assms(1) show ?thesis by (simp add: validate_wf_grid)
qed

theorem validate_full_consistent_witness:
  "validate \<lparr>numbers = solved_grid\<rparr> = Inr None"
proof -
  have "wf_grid solved_grid" "consistent solved_grid"
      "list_all (list_all (\<lambda>x. x \<noteq> None)) solved_grid"
    by code_simp+
  then show ?thesis using validate_full_consistent [of solved_grid] by simp
qed

end
