(* ===== verification/Aliasing.thy ===== *)
theory Aliasing
  imports Board
begin

text \<open>
  The methods of \<open>Sudoku\<close> over an object store, where sharing is visible.
  In Python \<open>self.numbers\<close> is a reference to a list object whose elements
  are references to row list objects; \<open>__init__\<close> and \<open>set_sudoku\<close> store
  the caller's reference, \<open>get_sudoku\<close> returns it, and \<open>set_cell\<close> writes
  into a row object in place.  So a write is seen through every reference to
  the same row: through the caller's grid, through the result of
  \<open>get_sudoku\<close>, and through every other position of the grid that holds
  the same row (as in \<open>[[None] * 9] * 9\<close>).

  The store has one address space for both kinds of list object: \<open>rows\<close>
  maps an address to the cells of a row object, \<open>grids\<close> to the row
  addresses of an outer list object, and \<open>next_addr\<close> is the first address
  not yet allocated.  \<open>view\<close> reads the grid a reference denotes; it is the
  abstraction to the value-level model of theory \<open>Board\<close>.  Reading methods
  only read the view, so they are the \<open>Board\<close> functions applied to it; the
  methods that allocate or write are defined on the store.
\<close>

section \<open>The store\<close>

type_synonym addr = nat

record store =
  rows :: "addr \<Rightarrow> cell list"
  grids :: "addr \<Rightarrow> addr list"
  next_addr :: addr

record sudoku_obj =
  numbers_ref :: addr

definition view :: "store \<Rightarrow> addr \<Rightarrow> grid" where
  "view h a = map (rows h) (grids h a)"

definition alloc_row :: "cell list \<Rightarrow> store \<Rightarrow> addr \<times> store" where
  "alloc_row xs h =
     (next_addr h, h\<lparr>rows := (rows h)(next_addr h := xs), next_addr := Suc (next_addr h)\<rparr>)"

definition alloc_grid :: "addr list \<Rightarrow> store \<Rightarrow> addr \<times> store" where
  "alloc_grid rs h =
     (next_addr h, h\<lparr>grids := (grids h)(next_addr h := rs), next_addr := Suc (next_addr h)\<rparr>)"

text \<open>\<open>g[i][j] = v\<close> for a reference \<open>g\<close> to an outer list: \<open>g[i]\<close> is
  read, then the row object it denotes is stored into.\<close>

definition store_set :: "store \<Rightarrow> addr \<Rightarrow> int \<Rightarrow> int \<Rightarrow> cell \<Rightarrow> store py" where
  "store_set h a i j v =
     py_bind (py_index (grids h a) i) (\<lambda>ra.
     py_bind (py_store (rows h ra) j v) (\<lambda>row'.
     Inr (h\<lparr>rows := (rows h)(ra := row')\<rparr>)))"

section \<open>The methods on the store\<close>

text \<open>\<open>[[None for j in range(9)] for i in range(9)]\<close>: nine fresh row
  objects, allocated in order, then the outer list.\<close>

fun alloc_rows :: "nat \<Rightarrow> store \<Rightarrow> addr list \<times> store" where
  "alloc_rows 0 h = ([], h)"
| "alloc_rows (Suc n) h =
     (let (a, h1) = alloc_row (replicate 9 None) h;
          (as, h2) = alloc_rows n h1
      in (a # as, h2))"

definition h_empty_grid :: "store \<Rightarrow> addr \<times> store" where
  "h_empty_grid h = (let (rs, h1) = alloc_rows 9 h in alloc_grid rs h1)"

text \<open>\<open>__init__\<close>: \<open>if not numbers\<close> tests the argument's list object for
  emptiness; a non-empty list is kept by reference, not copied.\<close>

definition h_init :: "addr option \<Rightarrow> store \<Rightarrow> sudoku_obj \<times> store" where
  "h_init arg h =
     (case arg of
        Some a \<Rightarrow>
          (if grids h a = [] then (let (a', h1) = h_empty_grid h in (\<lparr>numbers_ref = a'\<rparr>, h1))
           else (\<lparr>numbers_ref = a\<rparr>, h))
      | None \<Rightarrow> (let (a', h1) = h_empty_grid h in (\<lparr>numbers_ref = a'\<rparr>, h1)))"

definition h_get_cell :: "store \<Rightarrow> sudoku_obj \<Rightarrow> int list \<Rightarrow> cell py" where
  "h_get_cell h b pos = get_cell \<lparr>numbers = view h (numbers_ref b)\<rparr> pos"

definition h_get_sudoku :: "sudoku_obj \<Rightarrow> addr" where
  "h_get_sudoku b = numbers_ref b"

text \<open>\<open>set_cell\<close>: the three \<open>assert\<close>s read the grid; the last statement
  writes into the row object \<open>self.numbers[pos[1] - 1]\<close>.\<close>

definition h_set_cell :: "store \<Rightarrow> sudoku_obj \<Rightarrow> int list \<Rightarrow> cell \<Rightarrow> store py" where
  "h_set_cell h b pos v =
     py_bind (check_pos \<lparr>numbers = view h (numbers_ref b)\<rparr> pos) (\<lambda>(c, r).
     py_bind (check_value v) (\<lambda>_.
     store_set h (numbers_ref b) (r - 1) (c - 1) v))"

definition h_set_sudoku :: "sudoku_obj \<Rightarrow> addr \<Rightarrow> sudoku_obj" where
  "h_set_sudoku b a = b\<lparr>numbers_ref := a\<rparr>"

text \<open>A caller that runs \<open>set_cell\<close> calls on one board and catches their
  exceptions: the store after each call, or as it was when the call raised.\<close>

definition h_after_set_cell :: "store \<Rightarrow> sudoku_obj \<Rightarrow> int list \<Rightarrow> cell \<Rightarrow> store" where
  "h_after_set_cell h b pos v = (case h_set_cell h b pos v of Inl e \<Rightarrow> h | Inr h' \<Rightarrow> h')"

fun h_run_set :: "store \<Rightarrow> sudoku_obj \<Rightarrow> (int list \<times> cell) list \<Rightarrow> store" where
  "h_run_set h b [] = h"
| "h_run_set h b ((pos, v) # cs) = h_run_set (h_after_set_cell h b pos v) b cs"

section \<open>Sharing\<close>

text \<open>A grid reference whose rows are pairwise different objects.\<close>

definition unaliased :: "store \<Rightarrow> addr \<Rightarrow> bool" where
  "unaliased h a \<longleftrightarrow> distinct (grids h a)"

text \<open>A 9 by 9 grid built as \<open>[[None] * 9] * 9\<close>: one row object, nine
  times, at address 0, with the outer list at address 1.\<close>

definition shared_row_store :: store where
  "shared_row_store =
     \<lparr>rows = (\<lambda>_. [])(0 := replicate 9 None), grids = (\<lambda>_. [])(1 := replicate 9 0),
      next_addr = 2\<rparr>"

text \<open>The store a board built without a grid leaves behind when the store was
  empty: nine row objects at addresses 0..8, the outer list at 9.\<close>

definition grid_store :: store where
  "grid_store =
     \<lparr>rows = (\<lambda>k. if k < 9 then replicate 9 None else []),
      grids = (\<lambda>k. if k = 9 then [0..<9] else []), next_addr = 10\<rparr>"

section \<open>Lemmas on the store\<close>

lemma map_fun_upd_distinct:
  "distinct xs \<Longrightarrow> k < length xs \<Longrightarrow> map (f(xs ! k := y)) xs = (map f xs)[k := y]"
  by (rule nth_equalityI) (auto simp add: nth_list_update nth_eq_iff_index_eq)

lemma check_pos_Inr_bounds:
  assumes "check_pos s pos = Inr (c, r)"
  shows "1 \<le> r \<and> r \<le> int (length (numbers s))"
proof (cases pos rule: remdups_adj.cases)
  case 1
  with assms show ?thesis by (simp add: check_pos_def)
next
  case (2 x)
  with assms show ?thesis
    by (auto simp add: check_pos_def py_le_chain_def py_assert_def py_bind_eq_Inr split: if_splits)
next
  case (3 x y rest)
  with assms show ?thesis
    by (auto simp add: check_pos_def py_le_chain_def py_assert_def py_bind_eq_Inr split: if_splits)
qed

lemma store_set_view:
  assumes "unaliased h a" and "0 \<le> i" and "i < int (length (grids h a))"
  shows "map_sum id (\<lambda>h'. view h' a) (store_set h a i j v) =
         py_bind (py_store (view h a ! nat i) j v) (\<lambda>row'. Inr ((view h a)[nat i := row']))"
proof -
  let ?ra = "grids h a ! nat i"
  have idx: "py_index (grids h a) i = Inr ?ra"
    using assms by (simp add: py_simps)
  have row: "map (rows h) (grids h a) ! nat i = rows h ?ra"
    using assms by simp
  have upd: "map ((rows h)(?ra := row')) (grids h a) = (map (rows h) (grids h a))[nat i := row']" for row'
    using assms by (simp add: unaliased_def map_fun_upd_distinct)
  show ?thesis
    by (cases "py_store (rows h ?ra) j v") (simp_all add: store_set_def idx row upd view_def)
qed


lemma h_set_cell_refines:
  assumes "unaliased h (numbers_ref b)"
  shows "map_sum id (\<lambda>h'. \<lparr>numbers = view h' (numbers_ref b)\<rparr>) (h_set_cell h b pos v) =
         set_cell \<lparr>numbers = view h (numbers_ref b)\<rparr> pos v"
proof (cases "check_pos \<lparr>numbers = view h (numbers_ref b)\<rparr> pos")
  case (Inl e)
  then show ?thesis by (simp add: h_set_cell_def set_cell_def)
next
  case (Inr p)
  obtain c r where p: "p = (c, r)" by (cases p)
  let ?a = "numbers_ref b"
  let ?ra = "grids h ?a ! nat (r - 1)"
  have "1 \<le> r \<and> r \<le> int (length (numbers \<lparr>numbers = view h ?a\<rparr>))"
    using Inr p by (intro check_pos_Inr_bounds) simp
  then have "1 \<le> r" "r \<le> int (length (grids h ?a))"
    by (simp_all add: view_def)
  then have idx: "py_index (grids h ?a) (r - 1) = Inr ?ra"
    and vidx: "py_index (view h ?a) (r - 1) = Inr (rows h ?ra)"
    and upd: "map ((rows h)(?ra := row')) (grids h ?a) = (view h ?a)[nat (r - 1) := row']" for row'
    using assms by (simp_all add: py_simps view_def unaliased_def map_fun_upd_distinct)
  show ?thesis
  proof (cases "check_value v")
    case (Inl e)
    with Inr p show ?thesis by (simp add: h_set_cell_def set_cell_def)
  next
    case (Inr u)
    with \<open>check_pos _ pos = Inr p\<close> p idx vidx upd show ?thesis
      by (cases "py_store (rows h ?ra) (c - 1) v")
         (simp_all add: h_set_cell_def set_cell_def store_set_def view_def)
  qed
qed

lemma alloc_rows_spec:
  "alloc_rows n h = (as, h') \<Longrightarrow>
     as = [next_addr h..<next_addr h + n] \<and> next_addr h' = next_addr h + n \<and> grids h' = grids h \<and>
     (\<forall>k. rows h' k = (if next_addr h \<le> k \<and> k < next_addr h + n then replicate 9 None else rows h k))"
proof (induction n arbitrary: h as h')
  case 0
  then show ?case by auto
next
  case (Suc n)
  obtain as1 h2 where rec: "alloc_rows n (snd (alloc_row (replicate 9 None) h)) = (as1, h2)"
    by (cases "alloc_rows n (snd (alloc_row (replicate 9 None) h))")
  have ih: "as1 = [Suc (next_addr h)..<Suc (next_addr h) + n] \<and> next_addr h2 = Suc (next_addr h) + n \<and>
      grids h2 = grids h \<and>
      (\<forall>k. rows h2 k = (if Suc (next_addr h) \<le> k \<and> k < Suc (next_addr h) + n then replicate 9 None
                         else ((rows h)(next_addr h := replicate 9 None)) k))"
    using Suc.IH [OF rec] by (simp add: alloc_row_def)
  from Suc.prems rec have "as = next_addr h # as1" "h' = h2"
    by (simp_all add: alloc_row_def)
  with ih show ?case by (auto simp add: upt_rec)
qed


lemma h_empty_grid_spec:
  "h_empty_grid h = (a, h') \<Longrightarrow> unaliased h' a \<and> view h' a = empty_grid"
proof -
  assume e: "h_empty_grid h = (a, h')"
  obtain as h1 where r: "alloc_rows 9 h = (as, h1)" by (cases "alloc_rows 9 h")
  from alloc_rows_spec [OF r] have as: "as = [next_addr h..<next_addr h + 9]"
    and rows1: "\<forall>k. next_addr h \<le> k \<and> k < next_addr h + 9 \<longrightarrow> rows h1 k = replicate 9 None"
    by auto
  from e r have a: "a = next_addr h1" and h': "h' = h1\<lparr>grids := (grids h1)(a := as), next_addr := Suc a\<rparr>"
    by (auto simp add: h_empty_grid_def alloc_grid_def)
  have "map (rows h1) as = map (\<lambda>_. replicate 9 None) as"
    using rows1 by (intro map_cong) (auto simp add: as)
  then have "map (rows h1) as = replicate 9 (replicate 9 None)"
    by (simp add: map_replicate_const as)
  then show ?thesis
    by (simp add: h' unaliased_def view_def as empty_grid_def)
qed

text \<open>A successful write changes one row object, one of the rows of the
  grid written through, and nothing else; a grid with none of those rows
  keeps its view.\<close>

lemma store_set_Inr:
  assumes "store_set h a i j v = Inr h'"
  shows "\<exists>ra\<in>set (grids h a). \<exists>xs. h' = h\<lparr>rows := (rows h)(ra := xs)\<rparr>"
  using assms by (auto simp add: store_set_def py_bind_eq_Inr dest: py_index_in_set)

lemma view_rows_upd_other:
  "ra \<notin> set (grids h a) \<Longrightarrow> view (h\<lparr>rows := (rows h)(ra := xs)\<rparr>) a = view h a"
  by (auto simp add: view_def)

lemma h_set_cell_store_set:
  "h_set_cell h b pos v = Inr h' \<Longrightarrow> \<exists>c r. store_set h (numbers_ref b) (r - 1) (c - 1) v = Inr h'"
  by (auto simp add: h_set_cell_def py_bind_eq_Inr)

lemma h_set_cell_view_disjoint:
  assumes "h_set_cell h b pos v = Inr h'" and "set (grids h a) \<inter> set (grids h (numbers_ref b)) = {}"
  shows "view h' a = view h a"
proof -
  obtain c r where "store_set h (numbers_ref b) (r - 1) (c - 1) v = Inr h'"
    using h_set_cell_store_set [OF assms(1)] by blast
  from store_set_Inr [OF this] obtain ra xs where
    "ra \<in> set (grids h (numbers_ref b))" "h' = h\<lparr>rows := (rows h)(ra := xs)\<rparr>"
    by blast
  moreover from assms(2) this(1) have "ra \<notin> set (grids h a)" by blast
  ultimately show ?thesis by (simp add: view_rows_upd_other)
qed

lemma h_set_cell_Inr:
  assumes "wf_grid (view h (numbers_ref b))" and "h_set_cell h b pos v = Inr h'"
  shows "\<exists>c r rest. pos = c # r # rest \<and> valid_pos c r \<and> cell_ok v \<and> v \<noteq> None \<and>
           h' = h\<lparr>rows := (rows h)(grids h (numbers_ref b) ! nat (r - 1) :=
                    (rows h (grids h (numbers_ref b) ! nat (r - 1)))[nat (c - 1) := v])\<rparr>"
proof -
  let ?s = "\<lparr>numbers = view h (numbers_ref b)\<rparr>"
  obtain p where p: "check_pos ?s pos = Inr p"
    using assms(2) by (cases "check_pos ?s pos") (simp_all add: h_set_cell_def)
  have wf: "wf_grid (numbers ?s)" using assms(1) by simp
  from check_pos_Inr [OF wf p] obtain c r rest where pos: "pos = c # r # rest" "p = (c, r)" "valid_pos c r"
    by blast
  obtain u where u: "check_value v = Inr u"
    using assms(2) p pos by (cases "check_value v") (simp_all add: h_set_cell_def)
  then have v: "cell_ok v \<and> v \<noteq> None"
    by (cases v) (auto simp add: check_value_def py_assert_def split: if_splits)
  let ?ra = "grids h (numbers_ref b) ! nat (r - 1)"
  have lg: "length (grids h (numbers_ref b)) = 9"
    using wf_grid_length [OF assms(1)] by (simp add: view_def)
  have lr: "length (rows h ?ra) = 9"
    using wf_grid_row_length [OF assms(1), of "nat (r - 1)"] pos(3) lg
    by (simp add: view_def valid_pos_index)
  have "py_index (grids h (numbers_ref b)) (r - 1) = Inr ?ra"
    using pos(3) lg by (intro py_index_digit) (simp_all add: valid_pos_def)
  moreover have "py_store (rows h ?ra) (c - 1) v = Inr ((rows h ?ra)[nat (c - 1) := v])"
    using pos(3) lr by (intro py_store_digit) (simp_all add: valid_pos_def)
  ultimately have "h' = h\<lparr>rows := (rows h)(?ra := (rows h ?ra)[nat (c - 1) := v])\<rparr>"
    using assms(2) p pos(2) u by (simp add: h_set_cell_def store_set_def)
  with pos v show ?thesis by blast
qed

text \<open>The new objects of a constructed board lie at and above \<open>next_addr\<close>
  of the store before; the objects already there are left alone.\<close>

lemma h_empty_grid_alloc:
  assumes "h_empty_grid h = (a, h')"
  shows "a = next_addr h + 9 \<and> next_addr h' = next_addr h + 10 \<and>
         grids h' = (grids h)(a := [next_addr h..<next_addr h + 9]) \<and>
         (\<forall>k<next_addr h. rows h' k = rows h k)"
proof -
  obtain as h1 where r: "alloc_rows 9 h = (as, h1)" by (cases "alloc_rows 9 h")
  from alloc_rows_spec [OF r] assms r show ?thesis
    by (auto simp add: h_empty_grid_def alloc_grid_def)
qed

lemma h_init_None_alloc:
  assumes "h_init None h = (b, h')"
  shows "numbers_ref b = next_addr h + 9 \<and> next_addr h' = next_addr h + 10 \<and>
         grids h' = (grids h)(numbers_ref b := [next_addr h..<next_addr h + 9]) \<and>
         (\<forall>k<next_addr h. rows h' k = rows h k) \<and>
         unaliased h' (numbers_ref b) \<and> view h' (numbers_ref b) = empty_grid"
proof -
  obtain a h1 where e: "h_empty_grid h = (a, h1)" by (cases "h_empty_grid h")
  with assms have "b = \<lparr>numbers_ref = a\<rparr>" "h' = h1" by (simp_all add: h_init_def)
  with h_empty_grid_alloc [OF e] h_empty_grid_spec [OF e] show ?thesis by simp
qed

text \<open>C20. Where the rows of the board's grid are distinct objects, the store
  model of \<open>set_cell\<close> and the value model agree: the same exception, or
  the grid the value model computes.\<close>

theorem h_set_cell_simulation:
  assumes "unaliased h (numbers_ref b)"
  shows "(h_set_cell h b pos v = Inr h' \<longrightarrow>
            set_cell \<lparr>numbers = view h (numbers_ref b)\<rparr> pos v = Inr \<lparr>numbers = view h' (numbers_ref b)\<rparr>) \<and>
         (h_set_cell h b pos v = Inl e \<longleftrightarrow> set_cell \<lparr>numbers = view h (numbers_ref b)\<rparr> pos v = Inl e)"
  using h_set_cell_refines [OF assms, of pos v, symmetric]
  by (cases "h_set_cell h b pos v") auto

theorem h_set_cell_simulation_witness:
  "unaliased grid_store 9 \<and>
   (h_set_cell grid_store \<lparr>numbers_ref = 9\<rparr> [1, 1] None = Inl TypeError \<longleftrightarrow>
    set_cell \<lparr>numbers = view grid_store 9\<rparr> [1, 1] None = Inl TypeError)"
proof -
  have u: "unaliased grid_store (numbers_ref \<lparr>numbers_ref = 9\<rparr>)"
    by code_simp
  show ?thesis
    using h_set_cell_simulation [OF u, of "[1, 1]" None _ TypeError] u by simp
qed

text \<open>C21. A board constructed without a grid refers to a freshly allocated
  9 by 9 grid of empty cells: the outer list and its nine rows are new
  objects, at or above the first free address of the store before, the rows
  are nine different objects, and every object already in the store is left
  as it was.\<close>

theorem h_init_None_fresh:
  assumes "h_init None h = (b, h')"
  shows "next_addr h \<le> numbers_ref b \<and> numbers_ref b < next_addr h' \<and>
         (\<forall>ra\<in>set (grids h' (numbers_ref b)). next_addr h \<le> ra \<and> ra < next_addr h') \<and>
         unaliased h' (numbers_ref b) \<and> view h' (numbers_ref b) = empty_grid \<and>
         (\<forall>k<next_addr h. rows h' k = rows h k \<and> grids h' k = grids h k)"
  using h_init_None_alloc [OF assms] by auto

theorem h_init_None_fresh_witness:
  "next_addr grid_store \<le> numbers_ref (fst (h_init None grid_store)) \<and>
   numbers_ref (fst (h_init None grid_store)) < next_addr (snd (h_init None grid_store)) \<and>
   unaliased (snd (h_init None grid_store)) (numbers_ref (fst (h_init None grid_store))) \<and>
   view (snd (h_init None grid_store)) (numbers_ref (fst (h_init None grid_store))) = empty_grid \<and>
   rows (snd (h_init None grid_store)) 0 = rows grid_store 0 \<and>
   grids (snd (h_init None grid_store)) 9 = grids grid_store 9"
proof -
  have n: "next_addr grid_store = 10" by (simp add: grid_store_def)
  show ?thesis
    using h_init_None_fresh [of grid_store "fst (h_init None grid_store)" "snd (h_init None grid_store)"]
    by (simp add: n)
qed

text \<open>C22. Two boards constructed one after the other without a grid share
  no row object, and a \<open>set_cell\<close> on the second leaves the grid of the
  first empty.\<close>

theorem h_init_separate_boards:
  assumes "h_init None h = (b1, h1)" and "h_init None h1 = (b2, h2)"
    and "h_set_cell h2 b2 pos v = Inr h3"
  shows "numbers_ref b1 \<noteq> numbers_ref b2 \<and>
         set (grids h2 (numbers_ref b1)) \<inter> set (grids h2 (numbers_ref b2)) = {} \<and>
         view h3 (numbers_ref b1) = empty_grid"
proof -
  note i1 = h_init_None_alloc [OF assms(1)] and i2 = h_init_None_alloc [OF assms(2)]
  have g1: "grids h2 (numbers_ref b1) = [next_addr h..<next_addr h + 9]"
    and g2: "grids h2 (numbers_ref b2) = [next_addr h1..<next_addr h1 + 9]"
    using i1 i2 by simp_all
  then have disj: "set (grids h2 (numbers_ref b1)) \<inter> set (grids h2 (numbers_ref b2)) = {}"
    using i1 by auto
  have "view h2 (numbers_ref b1) = view h1 (numbers_ref b1)"
    using i1 i2 by (simp add: view_def)
  moreover have "view h1 (numbers_ref b1) = empty_grid" using i1 by blast
  ultimately have "view h2 (numbers_ref b1) = empty_grid" by simp
  with h_set_cell_view_disjoint [OF assms(3) disj] i1 i2 disj show ?thesis by simp
qed

theorem h_init_separate_boards_witness:
  "case h_set_cell (snd (h_init None (snd (h_init None grid_store)))) (fst (h_init None (snd (h_init None grid_store)))) [1, 1] (Some 5) of
     Inl e \<Rightarrow> False
   | Inr h3 \<Rightarrow> numbers_ref (fst (h_init None grid_store)) \<noteq> numbers_ref (fst (h_init None (snd (h_init None grid_store)))) \<and>
       set (grids (snd (h_init None (snd (h_init None grid_store)))) (numbers_ref (fst (h_init None grid_store)))) \<inter>
       set (grids (snd (h_init None (snd (h_init None grid_store)))) (numbers_ref (fst (h_init None (snd (h_init None grid_store)))))) = {} \<and>
       view h3 (numbers_ref (fst (h_init None grid_store))) = empty_grid"
proof -
  obtain b1 h1 where i1: "h_init None grid_store = (b1, h1)" by (cases "h_init None grid_store")
  obtain b2 h2 where i2: "h_init None h1 = (b2, h2)" by (cases "h_init None h1")
  have u: "unaliased h2 (numbers_ref b2)" and e: "view h2 (numbers_ref b2) = empty_grid"
    using h_init_None_alloc [OF i2] by blast+
  have "set_cell \<lparr>numbers = view h2 (numbers_ref b2)\<rparr> [1, 1] (Some 5) =
      Inr \<lparr>numbers = put_cell empty_grid 1 1 (Some 5)\<rparr>"
    using e by (simp add: set_cell_valid empty_grid_wf valid_pos_def)
  with h_set_cell_refines [OF u, of "[1, 1]" "Some 5"]
  obtain h3 where st: "h_set_cell h2 b2 [1, 1] (Some 5) = Inr h3"
    by (cases "h_set_cell h2 b2 [1, 1] (Some 5)") auto
  from h_init_separate_boards [OF i1 i2 st] st i1 i2 show ?thesis by simp
qed

text \<open>C23. \<open>get_sudoku\<close> returns the board's own grid: a write
  \<open>g[r - 1][c - 1] = v\<close> through it is what \<open>get_cell\<close> then reads, even a
  value \<open>set_cell\<close> would reject.\<close>

theorem get_sudoku_shares_grid:
  assumes "wf_grid (view h (numbers_ref b))" and "unaliased h (numbers_ref b)"
    and "valid_pos c r" and "store_set h (h_get_sudoku b) (r - 1) (c - 1) v = Inr h'"
  shows "h_get_cell h' b [c, r] = Inr v"
proof -
  let ?a = "numbers_ref b"
  have len: "int (length (grids h ?a)) = 9"
    using wf_grid_length [OF assms(1)] by (simp add: view_def)
  have "map_sum id (\<lambda>h'. view h' ?a) (store_set h ?a (r - 1) (c - 1) v) =
        py_bind (py_store (view h ?a ! nat (r - 1)) (c - 1) v) (\<lambda>row'. Inr ((view h ?a)[nat (r - 1) := row']))"
    using assms(2,3) len by (intro store_set_view) (simp_all add: valid_pos_def)
  moreover have "length (view h ?a ! nat (r - 1)) = 9"
    using assms(1,3) by (simp add: wf_grid_row_length valid_pos_index)
  then have "py_store (view h ?a ! nat (r - 1)) (c - 1) v = Inr ((view h ?a ! nat (r - 1))[nat (c - 1) := v])"
    using assms(3) by (intro py_store_digit) (simp_all add: valid_pos_def)
  ultimately have "view h' ?a = put_cell (view h ?a) c r v"
    using assms(4) by (simp add: h_get_sudoku_def put_cell_def)
  with assms(1,3) show ?thesis
    by (simp add: h_get_cell_def get_cell_valid wf_grid_put_cell cell_at_put_cell)
qed

theorem get_sudoku_shares_grid_witness:
  "case store_set grid_store (h_get_sudoku \<lparr>numbers_ref = 9\<rparr>) 2 0 (Some 42) of
     Inl e \<Rightarrow> False
   | Inr h' \<Rightarrow> h_get_cell h' \<lparr>numbers_ref = 9\<rparr> [1, 3] = Inr (Some 42)"
proof -
  let ?b = "\<lparr>numbers_ref = 9\<rparr>"
  have pre: "wf_grid (view grid_store (numbers_ref ?b))" "unaliased grid_store (numbers_ref ?b)"
      "valid_pos 1 3"
    by code_simp+
  have "\<not> isl (store_set grid_store (h_get_sudoku ?b) 2 0 (Some 42))"
    by code_simp
  then obtain h' where st: "store_set grid_store (h_get_sudoku ?b) (3 - 1) (1 - 1) (Some 42) = Inr h'"
    by (cases "store_set grid_store (h_get_sudoku ?b) 2 0 (Some 42)") auto
  have "h_get_cell h' ?b [1, 3] = Inr (Some 42)"
    using get_sudoku_shares_grid [OF pre st] .
  with st show ?thesis by simp
qed

text \<open>C24. Where two rows of the grid are one object, as in
  \<open>[[None] * 9] * 9\<close>, a \<open>set_cell\<close> in one of them is read back from the
  other: the same column of every row that shares the object holds the new
  value.\<close>

theorem shared_row_write_through:
  assumes "wf_grid (view h (numbers_ref b))" and "h_set_cell h b [c, r] v = Inr h'"
    and "1 \<le> r'" and "r' \<le> 9"
    and "grids h (numbers_ref b) ! nat (r' - 1) = grids h (numbers_ref b) ! nat (r - 1)"
  shows "h_get_cell h' b [c, r'] = Inr v"
proof -
  let ?g = "grids h (numbers_ref b)"
  let ?ra = "?g ! nat (r - 1)"
  from h_set_cell_Inr [OF assms(1,2)] have pos: "valid_pos c r"
    and h': "h' = h\<lparr>rows := (rows h)(?ra := (rows h ?ra)[nat (c - 1) := v])\<rparr>"
    by auto
  have lg: "length ?g = 9"
    using wf_grid_length [OF assms(1)] by (simp add: view_def)
  have lr: "length (rows h (?g ! k)) = 9" if "k < 9" for k
    using wf_grid_row_length [OF assms(1) that] lg that by (simp add: view_def)
  have lra: "length (rows h ?ra) = 9" using lr pos by (simp add: valid_pos_index)
  have wf': "wf_grid (view h' (numbers_ref b))"
    using lg lr lra by (auto simp add: wf_grid_def view_def h' list_all_length)
  have v': "valid_pos c r'" using pos assms(3,4) by (simp add: valid_pos_def)
  have "cell_at (view h' (numbers_ref b)) c r' = v"
    using lg lra pos assms(3,4,5)
    by (simp add: cell_at_def view_def h' valid_pos_index)
  with wf' v' show ?thesis by (simp add: h_get_cell_def get_cell_valid)
qed

theorem shared_row_write_through_witness:
  "case h_set_cell shared_row_store \<lparr>numbers_ref = 1\<rparr> [1, 1] (Some 5) of
     Inl e \<Rightarrow> False
   | Inr h' \<Rightarrow> h_get_cell h' \<lparr>numbers_ref = 1\<rparr> [1, 2] = Inr (Some 5)"
proof -
  let ?b = "\<lparr>numbers_ref = 1\<rparr>"
  have pre: "wf_grid (view shared_row_store (numbers_ref ?b))" "1 \<le> (2::int)" "(2::int) \<le> 9"
      "grids shared_row_store (numbers_ref ?b) ! nat (2 - 1) = grids shared_row_store (numbers_ref ?b) ! nat (1 - 1)"
    by code_simp+
  have "\<not> isl (h_set_cell shared_row_store ?b [1, 1] (Some 5))"
    by code_simp
  then obtain h' where st: "h_set_cell shared_row_store ?b [1, 1] (Some 5) = Inr h'"
    by (cases "h_set_cell shared_row_store ?b [1, 1] (Some 5)") auto
  from shared_row_write_through [OF pre(1) st pre(2,3,4)] st show ?thesis by simp
qed

text \<open>C25. A board built from a non-empty grid uses the caller's list itself:
  the constructor allocates nothing, and a \<open>set_cell\<close> through the board
  changes the caller's grid as the value model changes the board.\<close>

theorem h_init_keeps_caller_grid:
  assumes "grids h a \<noteq> []" and "unaliased h a"
    and "h_set_cell h (fst (h_init (Some a) h)) pos v = Inr h'"
  shows "snd (h_init (Some a) h) = h \<and>
         set_cell \<lparr>numbers = view h a\<rparr> pos v = Inr \<lparr>numbers = view h' a\<rparr>"
proof -
  have i: "h_init (Some a) h = (\<lparr>numbers_ref = a\<rparr>, h)"
    using assms(1) by (simp add: h_init_def)
  with assms(2,3) show ?thesis
    using h_set_cell_refines [of h "\<lparr>numbers_ref = a\<rparr>" pos v] by simp
qed

theorem h_init_keeps_caller_grid_witness:
  "case h_set_cell grid_store \<lparr>numbers_ref = 9\<rparr> [2, 2] (Some 7) of
     Inl e \<Rightarrow> False
   | Inr h' \<Rightarrow> snd (h_init (Some 9) grid_store) = grid_store \<and>
              set_cell \<lparr>numbers = view grid_store 9\<rparr> [2, 2] (Some 7) = Inr \<lparr>numbers = view h' 9\<rparr>"
proof -
  have pre: "grids grid_store 9 \<noteq> []" "unaliased grid_store 9"
    by code_simp+
  have i: "fst (h_init (Some 9) grid_store) = \<lparr>numbers_ref = 9\<rparr>"
    using pre(1) by (simp add: h_init_def)
  have "\<not> isl (h_set_cell grid_store \<lparr>numbers_ref = 9\<rparr> [2, 2] (Some 7))"
    by code_simp
  then obtain h' where st: "h_set_cell grid_store \<lparr>numbers_ref = 9\<rparr> [2, 2] (Some 7) = Inr h'"
    by (cases "h_set_cell grid_store \<lparr>numbers_ref = 9\<rparr> [2, 2] (Some 7)") auto
  then have "h_set_cell grid_store (fst (h_init (Some 9) grid_store)) [2, 2] (Some 7) = Inr h'"
    using i by simp
  from h_init_keeps_caller_grid [OF pre this] st show ?thesis by simp
qed

lemma h_set_cell_grids:
  "h_set_cell h b pos v = Inr h' \<Longrightarrow> grids h' = grids h"
  by (auto simp add: h_set_cell_def store_set_def py_bind_eq_Inr)

lemma h_run_set_grids: "grids (h_run_set h b cs) = grids h"
proof (induction cs arbitrary: h)
  case Nil
  then show ?case by simp
next
  case (Cons c cs)
  obtain pos v where c: "c = (pos, v)" by (cases c)
  have "grids (h_after_set_cell h b pos v) = grids h"
    by (cases "h_set_cell h b pos v") (simp_all add: h_after_set_cell_def h_set_cell_grids)
  with Cons.IH c show ?case by simp
qed

lemma h_init_None_empty:
  "h_init None h = (b, h') \<Longrightarrow> unaliased h' (numbers_ref b) \<and> view h' (numbers_ref b) = empty_grid"
  by (cases "h_empty_grid h") (auto simp add: h_init_def dest: h_empty_grid_spec)

end
