(* ===== verification/Session.thy ===== *)
theory Session
  imports Board Validate
begin

text \<open>
  A board's life as a sequence of method calls.  \<open>call\<close> names the public
  methods of \<open>Sudoku\<close> with their arguments, \<open>ret\<close> their return values,
  and \<open>call_step\<close> runs one call on the value model (theories \<open>Board\<close> and
  \<open>Validate\<close>), giving the return value and the board after the call, or the
  exception.  A caller that catches the exception keeps the board as it was:
  every method raises before its only write.

  \<open>reachable\<close> is the set of boards a caller can reach from \<open>Sudoku()\<close> by
  calls that succeed, where every grid handed to \<open>set_sudoku\<close> is 9 by 9
  with cells \<open>None\<close> or 1..9 (\<open>call_ok\<close>): \<open>set_sudoku\<close> itself checks
  nothing.  The invariant of these boards is proved by rule induction and gives
  that \<open>get_cell\<close> and \<open>validate\<close> never raise on them.
\<close>

section \<open>Calls and their effect\<close>

datatype call =
    GetCell "int list"
  | SetCell "int list" cell
  | GetSudoku
  | SetSudoku grid
  | Validate

datatype ret =
    RCell cell
  | RGrid grid
  | RValid "bool option"
  | RNone

fun call_step :: "sudoku \<Rightarrow> call \<Rightarrow> (ret \<times> sudoku) py" where
  "call_step s (GetCell pos) = py_bind (get_cell s pos) (\<lambda>v. Inr (RCell v, s))"
| "call_step s (SetCell pos v) = py_bind (set_cell s pos v) (\<lambda>s'. Inr (RNone, s'))"
| "call_step s GetSudoku = Inr (RGrid (get_sudoku s), s)"
| "call_step s (SetSudoku g) = Inr (RNone, set_sudoku s g)"
| "call_step s Validate = py_bind (validate s) (\<lambda>r. Inr (RValid r, s))"

text \<open>The board after a call whose exception, if any, the caller catches.\<close>

definition after_call :: "sudoku \<Rightarrow> call \<Rightarrow> sudoku" where
  "after_call s c = (case call_step s c of Inl e \<Rightarrow> s | Inr (r, s') \<Rightarrow> s')"

fun call_ok :: "call \<Rightarrow> bool" where
  "call_ok (SetSudoku g) = (wf_grid g \<and> cells_ok g)"
| "call_ok c = True"

inductive reachable :: "sudoku \<Rightarrow> bool" where
  init: "reachable (sudoku_init None)"
| step: "reachable s \<Longrightarrow> call_ok c \<Longrightarrow> reachable (after_call s c)"

text \<open>A session: the boards after each call of a list, in order.\<close>

fun run :: "sudoku \<Rightarrow> call list \<Rightarrow> sudoku" where
  "run s [] = s"
| "run s (c # cs) = run (after_call s c) cs"

definition board_inv :: "sudoku \<Rightarrow> bool" where
  "board_inv s \<longleftrightarrow> wf_grid (numbers s) \<and> cells_ok (numbers s)"

section \<open>Invariant of the reachable boards\<close>


lemma after_call_unchanged:
  "c \<in> {GetSudoku, Validate} \<or> (\<exists>pos. c = GetCell pos) \<Longrightarrow> after_call s c = s"
  by (auto simp add: after_call_def py_bind_def split: sum.splits)

lemma after_call_SetCell:
  "after_call s (SetCell pos v) = (case set_cell s pos v of Inl e \<Rightarrow> s | Inr s' \<Rightarrow> s')"
  by (cases "set_cell s pos v") (simp_all add: after_call_def)

lemma board_inv_set_cell:
  assumes "board_inv s" and "set_cell s pos v = Inr s'"
  shows "board_inv s'"
proof -
  from assms have "wf_grid (numbers s)" by (simp add: board_inv_def)
  from set_cell_Inr [OF this assms(2)] obtain c r rest where
    "valid_pos c r" "cell_ok v" "s' = s\<lparr>numbers := put_cell (numbers s) c r v\<rparr>"
    by blast
  with assms(1) show ?thesis
    by (simp add: board_inv_def wf_grid_put_cell cells_ok_put_cell)
qed

lemma board_inv_after_call:
  assumes "board_inv s" and "call_ok c"
  shows "board_inv (after_call s c)"
proof (cases c)
  case (SetCell pos v)
  with assms(1) show ?thesis
    by (auto simp add: after_call_SetCell board_inv_set_cell split: sum.splits)
next
  case (SetSudoku g)
  with assms(2) show ?thesis
    by (simp add: after_call_def board_inv_def set_sudoku_def)
qed (simp_all add: assms(1) after_call_unchanged)

lemma reachable_board_inv_aux: "reachable s \<Longrightarrow> board_inv s"
proof (induction rule: reachable.induct)
  case init
  show ?case
    by (simp add: board_inv_def sudoku_init_None_numbers empty_grid_wf empty_grid_cells)
next
  case (step s c)
  then show ?case by (simp add: board_inv_after_call)
qed

lemma run_reachable:
  "reachable s \<Longrightarrow> list_all call_ok cs \<Longrightarrow> reachable (run s cs)"
  by (induction cs arbitrary: s) (simp_all add: reachable.step)

text \<open>C26. Every board reachable from \<open>Sudoku()\<close> is 9 by 9 with cells
  \<open>None\<close> or 1..9.\<close>

theorem reachable_board_inv:
  "reachable s \<Longrightarrow> wf_grid (numbers s) \<and> cells_ok (numbers s)"
  using reachable_board_inv_aux by (simp add: board_inv_def)

theorem reachable_board_inv_witness:
  "wf_grid (numbers (run (sudoku_init None) [SetCell [1, 1] (Some 5), SetCell [2, 2] None, Validate])) \<and>
   cells_ok (numbers (run (sudoku_init None) [SetCell [1, 1] (Some 5), SetCell [2, 2] None, Validate]))"
proof -
  have "reachable (run (sudoku_init None) [SetCell [1, 1] (Some 5), SetCell [2, 2] None, Validate])"
    by (rule run_reachable) (simp_all add: reachable.init)
  then show ?thesis by (rule reachable_board_inv)
qed

text \<open>C27. On a reachable board \<open>get_cell\<close> at a valid position returns,
  and what it returns is \<open>None\<close> or a digit.\<close>

theorem reachable_get_cell:
  assumes "reachable s" and "valid_pos c r"
  shows "\<exists>v. get_cell s [c, r] = Inr v \<and> cell_ok v"
proof -
  have "board_inv s" using assms(1) by (rule reachable_board_inv_aux)
  then have wf: "wf_grid (numbers s)" and ok: "cells_ok (numbers s)"
    by (simp_all add: board_inv_def)
  have "cell_ok (cell_at (numbers s) c r)"
    using ok wf assms(2)
    by (simp add: cells_ok_def cell_at_def list_all_length wf_grid_length wf_grid_row_length valid_pos_index)
  with wf assms(2) show ?thesis by (simp add: get_cell_valid)
qed

theorem reachable_get_cell_witness:
  "\<exists>v. get_cell (after_call (sudoku_init None) (SetCell [4, 4] (Some 9))) [4, 4] = Inr v \<and> cell_ok v"
proof -
  have "reachable (after_call (sudoku_init None) (SetCell [4, 4] (Some 9)))"
    by (rule reachable.step [OF reachable.init]) simp
  moreover have "valid_pos 4 4" by (simp add: valid_pos_def)
  ultimately show ?thesis by (rule reachable_get_cell)
qed

text \<open>C28. On a reachable board \<open>validate\<close> raises nothing: it returns
  \<open>None\<close> or \<open>False\<close>.\<close>

theorem reachable_validate_returns:
  "reachable s \<Longrightarrow> validate s = Inr None \<or> validate s = Inr (Some False)"
  using reachable_board_inv_aux by (simp add: board_inv_def validate_wf_grid)

theorem reachable_validate_returns_witness:
  "validate (sudoku_init None) = Inr None \<or> validate (sudoku_init None) = Inr (Some False)"
  using reachable_validate_returns [OF reachable.init] .

text \<open>C29. On a reachable board \<open>set_cell\<close> with a two-entry position never
  raises \<open>IndexError\<close>: its only exceptions are the assertions and the
  \<open>TypeError\<close> of \<open>None\<close>.\<close>

theorem reachable_set_cell_errors:
  assumes "reachable s" and "set_cell s [c, r] v = Inl e"
  shows "e = TypeError \<or> (\<exists>m. e = AssertionError m)"
proof -
  have wf: "wf_grid (numbers s)"
    using reachable_board_inv_aux [OF assms(1)] by (simp add: board_inv_def)
  show ?thesis
  proof (cases "valid_pos c r")
    case False
    with wf assms(2) show ?thesis by (auto simp add: set_cell_def check_pos_invalid)
  next
    case True
    show ?thesis
    proof (cases "cell_ok v \<and> v \<noteq> None")
      case True
      with wf \<open>valid_pos c r\<close> assms(2) show ?thesis by (simp add: set_cell_valid)
    next
      case False
      with wf \<open>valid_pos c r\<close> assms(2) show ?thesis
        by (cases v) (auto simp add: set_cell_None set_cell_bad_value)
    qed
  qed
qed

theorem reachable_set_cell_errors_witness:
  "set_cell (sudoku_init None) [1, 1] None = Inl TypeError \<and>
   (TypeError = TypeError \<or> (\<exists>m. TypeError = AssertionError m))"
proof -
  have e: "set_cell (sudoku_init None) [1, 1] None = Inl TypeError"
    by (simp add: set_cell_None sudoku_init_None_numbers empty_grid_wf valid_pos_def)
  with reachable_set_cell_errors [OF reachable.init e] show ?thesis by simp
qed

end
