(* ===== verification/Spec2Isabelle.thy ===== *)
theory Spec2Isabelle
  imports Board Validate Aliasing Session
begin

text \<open>
  \<^bold>\<open>A verification library for \<open>src/my_sudoku.py\<close>.\<close>

  \<^medskip>
  \<^emph>\<open>The program.\<close>  The repository is one Python class, \<open>Sudoku\<close>
  (\<open>src/my_sudoku.py\<close>, 77 lines), holding a grid \<open>numbers\<close>: a list of rows,
  each a list of cells that are \<open>None\<close> (empty) or an integer.  Its methods
  are \<open>__init__\<close> (lines 6--13: a fresh 9 by 9 grid of \<open>None\<close> when the
  argument is \<open>None\<close> or empty, the caller's list itself otherwise),
  \<open>get_cell\<close> (15--23) and \<open>set_cell\<close> (32--42), whose positions are lists
  \<open>[column, row]\<close> counted from 1 and checked by \<open>assert\<close>, \<open>get_sudoku\<close>
  (25--30) and \<open>set_sudoku\<close> (44--50), which hand the grid out and in by
  reference with no check, and \<open>validate\<close> (52--77), which scans rows, then
  what it calls columns, for repeated entries, builds the coordinates of the
  first 3 by 3 box, and ends without a \<open>return\<close>.  The methods interact only
  through the one attribute; the caller shares it through the constructor's
  argument and the result of \<open>get_sudoku\<close>.  The display the module
  docstring names is not in the source.

  \<^medskip>
  \<^emph>\<open>Theories and what they model.\<close>
  \<^item> \<open>Py_Prelude\<close>: the Python values (\<open>cell = int option\<close>,
    \<open>grid = cell list list\<close>, Python's unbounded \<open>int\<close> as \<open>int\<close>), the
    exceptions as the datatype \<open>py_error\<close> (\<open>AssertionError\<close> with the
    message of the failing \<open>assert\<close>, \<open>IndexError\<close>, \<open>TypeError\<close>), the
    result type \<open>'a py = py_error + 'a\<close> with its bind \<open>py_bind\<close>, and the
    list primitives the class uses: subscript \<open>py_index\<close> and store
    \<open>py_store\<close> with Python's negative indices, the short-circuit chained
    comparison \<open>py_le_chain\<close>, \<open>py_len\<close>, \<open>py_range\<close> and the list
    comprehension \<open>py_map\<close>.  Their rules are collected in \<open>py_simps\<close>.
  \<^item> \<open>Board\<close>: the object as the record \<open>sudoku\<close> (field \<open>numbers\<close>) and one
    function per method, statement by statement: \<open>sudoku_init\<close>,
    \<open>check_pos\<close> (the two position \<open>assert\<close>s shared by \<open>get_cell\<close> and
    \<open>set_cell\<close>, lines 21--22 and 39--40), \<open>get_cell\<close>, \<open>get_sudoku\<close>,
    \<open>check_value\<close> (line 41), \<open>set_cell\<close>, \<open>set_sudoku\<close>.  The abstract view:
    \<open>wf_grid\<close> (9 by 9), \<open>cells_ok\<close> (cells \<open>None\<close> or 1..9),
    \<open>valid_pos\<close>, \<open>cell_at\<close>, \<open>put_cell\<close>.  Lemmas: the guards on valid and
    invalid positions, the result of each method on every branch, a short
    position list included, and \<open>get_cell\<close> on a grid with a short row
    (C1--C12).  This level has no frame property: which cells a write
    changes depends on which rows are one object, and only \<open>Aliasing\<close>
    sees that.
  \<^item> \<open>Validate\<close>: \<open>scan_line\<close> (the inner duplicate scan), \<open>validate_rows\<close>,
    \<open>column_of\<close> (the comprehension of line 67), \<open>validate_columns\<close>,
    \<open>boxes\<close> and \<open>validate\<close>, whose result \<open>bool option py\<close> is
    \<open>Some False\<close> for \<open>return False\<close>, \<open>None\<close> for falling off the end; and
    the spec's notion \<open>consistent\<close> (no digit twice in a row, a column or a
    box, empty cells ignored).  Lemmas: the scan against \<open>distinct\<close>, what
    \<open>validate\<close> returns on every 9 by 9 board and on every grid of any
    shape (\<open>False\<close> exactly for a repeated row entry, \<open>IndexError\<close> exactly
    when the column phase indexes past a row, \<open>None\<close> otherwise), and where
    that differs from \<open>consistent\<close> (C13--C19).
  \<^item> \<open>Aliasing\<close>: the same methods over an explicit store of list objects
    (record \<open>store\<close>: row objects and outer lists by address, an allocation
    counter), with \<open>view\<close> the abstraction to \<open>Board\<close>'s grids:
    \<open>h_init\<close> allocates nine fresh rows or keeps the caller's reference,
    \<open>h_set_cell\<close> writes into a row object (\<open>store_set\<close>), \<open>h_get_sudoku\<close>
    returns the reference.  Lemmas: the refinement of \<open>set_cell\<close> where the
    rows are distinct objects; construction allocates new objects at or above
    the store's first free address and leaves the old ones alone, so two
    boards built by \<open>Sudoku()\<close> are independent; writes through the
    reference \<open>get_sudoku\<close> returns; a write into a row that another row of
    the grid shares, as in \<open>[[None] * 9] * 9\<close>, is read back from both; the
    caller's grid is kept, not copied (C20--C25).
  \<^item> \<open>Session\<close>: a datatype \<open>call\<close> of method calls, \<open>call_step\<close> dispatching
    to \<open>Board\<close> and \<open>Validate\<close>, \<open>after_call\<close> for a caller that catches
    exceptions, the inductive set \<open>reachable\<close> of boards reachable from
    \<open>Sudoku()\<close> when \<open>set_sudoku\<close> is given only 9 by 9 grids of \<open>None\<close>
    and 1..9, and \<open>run\<close> over a list of calls.  Lemmas by rule induction: the
    invariant of reachable boards and that \<open>get_cell\<close>, \<open>validate\<close> and
    \<open>set_cell\<close> raise only what the invariant allows (C26--C29).
  \<^item> This theory: properties that span the store and the value model (C30,
    C31): a whole session of \<open>set_cell\<close> calls on a constructed board is the
    same on the store and on values, and the frame property holds on the
    store for distinct rows.

  \<^medskip>
  \<^emph>\<open>What the theorems show.\<close>  \<open>set_cell\<close> and \<open>get_cell\<close> round-trip,
  the position is checked before the value and
  each bad input gets the assertion the code formats; but \<open>set_cell\<close> can
  never empty a cell (\<open>1 <= None\<close> raises \<open>TypeError\<close>).  \<open>validate\<close>
  never returns \<open>True\<close>; on a 9 by 9 board it returns \<open>False\<close> exactly when
  a row repeats an entry, two empty cells included, and \<open>None\<close> otherwise,
  because its column phase re-reads rows and its box phase checks nothing;
  so it rejects the empty board and misses column and box repetitions.  On
  other shapes the answer still depends on the rows alone, or the column
  phase raises \<open>IndexError\<close>.
  \<open>set_sudoku\<close> checks nothing, after which \<open>get_cell\<close> and \<open>validate\<close>
  raise \<open>IndexError\<close>.  The value model is exact as long as the rows of the
  grid are distinct objects, which the constructor guarantees for the grid it
  allocates and \<open>set_cell\<close> preserves; then \<open>set_cell\<close> changes one cell
  and nothing else.  With shared rows one write changes the same column of
  every sharing row.  The grid handed out by \<open>get_sudoku\<close> is the board's
  own.

  \<^medskip>
  \<^emph>\<open>Bounds and loops.\<close>  No loop of the class can fail to end: the loops run
  over lists and ranges, so they are structural recursion (\<open>scan_line\<close>,
  \<open>validate_rows\<close>, \<open>validate_columns\<close>, \<open>py_map\<close>, \<open>alloc_rows\<close>) and
  no fuel is needed.  Integers are Python's, unbounded, so \<open>int\<close>; the
  only bounds are the 1..9 of positions and values, and \<open>nat\<close> appears only
  as the list index after a guard has made it non-negative.

  \<^medskip>
  \<^emph>\<open>Not modelled.\<close>  Values that are not \<open>int\<close> or \<open>None\<close> (Python would
  accept any object in the grid, and a string position would raise
  \<open>TypeError\<close>); Python's \<open>-O\<close> mode, which removes the \<open>assert\<close>s; the
  message strings beyond the value they format; the display, which the source
  does not contain.

  \<^medskip>
  \<^emph>\<open>Plan for later work.\<close>  A store-level session covering \<open>set_sudoku\<close>
  and caller writes (which rows stay distinct, which sharing a caller can
  create); \<open>set_cell\<close> on ragged grids, where the column is checked only
  against the first row.
\<close>

section \<open>Properties across the store and the value model\<close>

lemma h_after_set_cell_refines:
  assumes "unaliased h (numbers_ref b)"
  shows "\<lparr>numbers = view (h_after_set_cell h b pos v) (numbers_ref b)\<rparr> =
         after_call \<lparr>numbers = view h (numbers_ref b)\<rparr> (SetCell pos v)"
  using h_set_cell_refines [OF assms, of pos v, symmetric]
  by (cases "h_set_cell h b pos v") (auto simp add: h_after_set_cell_def after_call_SetCell)

lemma h_run_set_refines:
  "unaliased h (numbers_ref b) \<Longrightarrow>
   \<lparr>numbers = view (h_run_set h b cs) (numbers_ref b)\<rparr> =
   run \<lparr>numbers = view h (numbers_ref b)\<rparr> (map (\<lambda>(pos, v). SetCell pos v) cs)"
proof (induction cs arbitrary: h)
  case Nil
  then show ?case by simp
next
  case (Cons c cs)
  obtain pos v where c: "c = (pos, v)" by (cases c)
  let ?h1 = "h_after_set_cell h b pos v"
  have "grids ?h1 = grids h"
    by (cases "h_set_cell h b pos v") (simp_all add: h_after_set_cell_def h_set_cell_grids)
  with Cons.prems have "unaliased ?h1 (numbers_ref b)" by (simp add: unaliased_def)
  with Cons.IH [of ?h1] Cons.prems c show ?case
    by (simp add: h_after_set_cell_refines)
qed

text \<open>C30. For a board built by \<open>Sudoku()\<close>, any sequence of \<open>set_cell\<close>
  calls (exceptions caught) leaves on the object store exactly the grid the
  value model computes for the same calls.\<close>

theorem constructed_session_refines:
  "\<lparr>numbers = view (h_run_set (snd (h_init None h)) (fst (h_init None h)) cs)
                   (numbers_ref (fst (h_init None h)))\<rparr> =
   run (sudoku_init None) (map (\<lambda>(pos, v). SetCell pos v) cs)"
proof -
  obtain b h1 where i: "h_init None h = (b, h1)" by (cases "h_init None h")
  from h_init_None_empty [OF i] have "unaliased h1 (numbers_ref b)" "view h1 (numbers_ref b) = empty_grid"
    by simp_all
  with i show ?thesis
    using h_run_set_refines [of h1 b cs] by (simp add: sudoku_init_def)
qed

text \<open>C31. On the object store, a successful \<open>set_cell\<close> on a 9 by 9 board
  whose rows are distinct objects changes no other cell (compare C24).\<close>

theorem h_set_cell_frame:
  assumes "unaliased h (numbers_ref b)" and "wf_grid (view h (numbers_ref b))"
    and "h_set_cell h b [c, r] v = Inr h'" and "valid_pos c' r'" and "(c', r') \<noteq> (c, r)"
  shows "h_get_cell h' b [c', r'] = h_get_cell h b [c', r']"
proof -
  let ?s = "\<lparr>numbers = view h (numbers_ref b)\<rparr>"
  have "set_cell ?s [c, r] v = Inr \<lparr>numbers = view h' (numbers_ref b)\<rparr>"
    using h_set_cell_refines [OF assms(1), of "[c, r]" v] assms(3) by simp
  from set_cell_Inr [OF _ this] assms(2)
  have "valid_pos c r" and "view h' (numbers_ref b) = put_cell (view h (numbers_ref b)) c r v"
    by auto
  with assms show ?thesis
    by (auto simp add: h_get_cell_def get_cell_valid wf_grid_put_cell cell_at_put_cell)
qed

theorem h_set_cell_frame_witness:
  "case h_set_cell grid_store \<lparr>numbers_ref = 9\<rparr> [1, 1] (Some 5) of
     Inl e \<Rightarrow> False
   | Inr h' \<Rightarrow> h_get_cell h' \<lparr>numbers_ref = 9\<rparr> [1, 2] = h_get_cell grid_store \<lparr>numbers_ref = 9\<rparr> [1, 2]"
proof -
  have pre: "unaliased grid_store (numbers_ref \<lparr>numbers_ref = 9\<rparr>)"
      "wf_grid (view grid_store (numbers_ref \<lparr>numbers_ref = 9\<rparr>))" "valid_pos 1 2"
      "((1::int), (2::int)) \<noteq> (1, 1)"
    by code_simp+
  have "\<not> isl (h_set_cell grid_store \<lparr>numbers_ref = 9\<rparr> [1, 1] (Some 5))"
    by code_simp
  then obtain h' where st: "h_set_cell grid_store \<lparr>numbers_ref = 9\<rparr> [1, 1] (Some 5) = Inr h'"
    by (cases "h_set_cell grid_store \<lparr>numbers_ref = 9\<rparr> [1, 1] (Some 5)") auto
  from h_set_cell_frame [OF pre(1,2) st pre(3,4)] st show ?thesis by simp
qed

end
